theory Spec2Isabelle
  imports Complex_Main "HOL-Library.Word"
begin

unbundle bit_operations_syntax

section \<open>Conventions of the embedding\<close>

text \<open>
  The development embeds the decoding and normalisation functions of
  \<^verbatim>\<open>nvtk_mp42gpx_v3.py\<close>.

  \<^item> Python \<^verbatim>\<open>int\<close> is \<^typ>\<open>int\<close>; a byte is an \<^typ>\<open>8 word\<close>; a \<^verbatim>\<open>bytes\<close>
    object is a list of bytes.
  \<^item> Python \<^verbatim>\<open>float\<close> is idealised as \<^typ>\<open>real\<close>: rounding is not modelled, and the
    non-finite values of IEEE 754 (infinities, NaN) are a separate outcome of the
    decoder of 32-bit floats.
  \<^item> An exception that the script does not catch is a value \<open>Inl e\<close> of a sum type;
    a caught exception is the branch its handler takes.
  \<^item> The module-level variables \<^verbatim>\<open>previousLatitude\<close>, \<^verbatim>\<open>previousLongitude\<close>,
    \<^verbatim>\<open>videoStartTs\<close> and \<^verbatim>\<open>videoStartWrongAtoms\<close> are the fields of a record that every
    function reading or writing them takes and returns.
  \<^item> Output on the terminal (\<^verbatim>\<open>print\<close>, \<^verbatim>\<open>sys.stdout.write\<close>) and the diagnostic string
    \<^verbatim>\<open>videoStartTsInfo\<close> are not modelled.
\<close>

datatype error =
    StructError | ValueError | OverflowError | UnboundLocalError | TypeError | NameError
  | NonFinite

type_synonym byte = "8 word"

section \<open>Arithmetic helpers of the Python runtime\<close>

text \<open>Python's \<^verbatim>\<open>%\<close> on floats with a positive divisor: the result has the sign of the
  divisor, \<open>x - m * floor (x / m)\<close>.\<close>

definition py_fmod :: "real \<Rightarrow> real \<Rightarrow> real" where
  "py_fmod x m = x - m * of_int \<lfloor>x / m\<rfloor>"

text \<open>\<^verbatim>\<open>math.radians\<close> and \<^verbatim>\<open>math.degrees\<close>.\<close>

definition radians :: "real \<Rightarrow> real" where
  "radians x = x * pi / 180"

definition degrees :: "real \<Rightarrow> real" where
  "degrees x = x * 180 / pi"

text \<open>\<^verbatim>\<open>math.atan2 (y, x)\<close>, the angle of the point \<open>(x, y)\<close> in \<open>(-pi, pi]\<close>.\<close>

definition atan2 :: "real \<Rightarrow> real \<Rightarrow> real" where
  "atan2 y x =
     (if 0 < x then arctan (y / x)
      else if x < 0 then (if 0 \<le> y then arctan (y / x) + pi else arctan (y / x) - pi)
      else if 0 < y then pi / 2
      else if y < 0 then - (pi / 2)
      else 0)"

section \<open>Coordinate, speed and bearing conversion\<close>

text \<open>\<^verbatim>\<open>fix_coordinates (hemisphere, coordinate, deobfuscate=False)\<close>.\<close>

definition fix_coordinates :: "char \<Rightarrow> real \<Rightarrow> bool \<Rightarrow> real" where
  "fix_coordinates hemisphere coordinate deobfuscate =
     (let coordinate1 =
        (if \<not> deobfuscate then
           (let minutes = py_fmod coordinate 100;
                degs = coordinate - minutes
            in degs / 100 + minutes / 60)
         else coordinate)
      in if hemisphere \<in> set [CHR ''S'', CHR ''W''] then - 1 * coordinate1 else coordinate1)"

text \<open>\<^verbatim>\<open>fix_speed\<close>: knots to metres per second.\<close>

definition fix_speed :: "real \<Rightarrow> real" where
  "fix_speed speed = speed * 0.514444"

text \<open>\<^verbatim>\<open>correct_bearing\<close> is duck-typed. On two Python integers \<^verbatim>\<open>%\<close> is the floored
  modulus, which is \<open>mod\<close> on \<^typ>\<open>int\<close>; the decoder calls it with a float bearing, where
  \<^verbatim>\<open>%\<close> is \<^const>\<open>py_fmod\<close>.\<close>

definition correct_bearing :: "int \<Rightarrow> int \<Rightarrow> int" where
  "correct_bearing bearing bearingCorrection = (bearing + bearingCorrection) mod 360"

definition correct_bearing_float :: "real \<Rightarrow> int \<Rightarrow> real" where
  "correct_bearing_float bearing bearingCorrection =
     py_fmod (bearing + of_int bearingCorrection) 360"

section \<open>Exceptions as values\<close>

definition ebind :: "error + 'a \<Rightarrow> ('a \<Rightarrow> error + 'b) \<Rightarrow> error + 'b" where
  "ebind m f = (case m of Inl e \<Rightarrow> Inl e | Inr x \<Rightarrow> f x)"

section \<open>The \<^verbatim>\<open>struct\<close> module\<close>

text \<open>\<^verbatim>\<open>struct.unpack_from (fmt, data, offset)\<close> reads \<open>n\<close> bytes at \<open>offset\<close>; a negative
  offset counts from the end, and a buffer too short raises \<^verbatim>\<open>struct.error\<close>.\<close>

definition struct_slice :: "byte list \<Rightarrow> int \<Rightarrow> nat \<Rightarrow> error + byte list" where
  "struct_slice data offset n =
     (let len = int (length data);
          off = (if offset < 0 then offset + len else offset)
      in if off < 0 \<or> len - off < int n then Inl StructError
         else Inr (take n (drop (nat off) data)))"

text \<open>An unsigned 32-bit integer, little-endian (\<^verbatim>\<open><I\<close>) and big-endian (\<^verbatim>\<open>>I\<close>).\<close>

definition u32_le :: "byte list \<Rightarrow> int" where
  "u32_le bs = foldr (\<lambda>b acc. uint b + 256 * acc) bs 0"

definition u32_be :: "byte list \<Rightarrow> int" where
  "u32_be bs = foldl (\<lambda>acc b. 256 * acc + uint b) 0 bs"

text \<open>An IEEE 754 single (\<^verbatim>\<open><f\<close>) as the real number it denotes: sign bit, 8 exponent
  bits, 23 fraction bits. Exponent 255 (an infinity or a NaN) has no real value.\<close>

definition f32_le :: "byte list \<Rightarrow> error + real" where
  "f32_le bs =
     (let n = u32_le bs;
          sign = n div 2 ^ 31;
          e = (n div 2 ^ 23) mod 256;
          m = n mod 2 ^ 23;
          mag = (if e = 0 then real_of_int m / 2 ^ 149
                 else real_of_int (2 ^ 23 + m) * 2 ^ nat (e - 1) / 2 ^ 149)
      in if e = 255 then Inl NonFinite
         else Inr (if sign = 1 then - mag else mag))"

text \<open>The bytes of an ASCII string literal, and the character of an ASCII byte.\<close>

definition ascii :: "string \<Rightarrow> byte list" where
  "ascii s = map of_char s"

definition byte_char :: "byte \<Rightarrow> char" where
  "byte_char b = char_of (uint b)"

text \<open>\<^verbatim>\<open>bytes.decode ()\<close> succeeds on ASCII bytes. A sequence with a byte above 127 either
  raises \<^verbatim>\<open>UnicodeDecodeError\<close> or decodes to a non-ASCII string; the script compares the
  result with ASCII literals only, so the two cases take the same branch wherever the
  handler's branch and the mismatch branch coincide.\<close>

definition is_ascii :: "byte list \<Rightarrow> bool" where
  "is_ascii bs = list_all (\<lambda>b. b < 0x80) bs"

section \<open>The \<^verbatim>\<open>datetime\<close> module\<close>

text \<open>A \<^verbatim>\<open>datetime\<close> is the number of seconds since the start of proleptic Gregorian
  ordinal 0, \<open>ordinal * 86400 + seconds of the day\<close>; a \<^verbatim>\<open>timedelta\<close> is a number of
  seconds. The ordinal follows CPython's \<^verbatim>\<open>_ymd2ord\<close> and \<^verbatim>\<open>_ord2ymd\<close>.\<close>

definition is_leap :: "int \<Rightarrow> bool" where
  "is_leap year = (year mod 4 = 0 \<and> (year mod 100 \<noteq> 0 \<or> year mod 400 = 0))"

definition DAYS_IN_MONTH :: "int list" where
  "DAYS_IN_MONTH = [- 1, 31, 28, 31, 30, 31, 30, 31, 31, 30, 31, 30, 31]"

definition DAYS_BEFORE_MONTH :: "int list" where
  "DAYS_BEFORE_MONTH = [- 1, 0, 31, 59, 90, 120, 151, 181, 212, 243, 273, 304, 334]"

definition days_in_month :: "int \<Rightarrow> int \<Rightarrow> int" where
  "days_in_month year month =
     (if month = 2 \<and> is_leap year then 29 else DAYS_IN_MONTH ! nat month)"

definition days_before_year :: "int \<Rightarrow> int" where
  "days_before_year year =
     (let y = year - 1 in y * 365 + y div 4 - y div 100 + y div 400)"

definition days_before_month :: "int \<Rightarrow> int \<Rightarrow> int" where
  "days_before_month year month =
     DAYS_BEFORE_MONTH ! nat month + (if month > 2 \<and> is_leap year then 1 else 0)"

definition ymd2ord :: "int \<Rightarrow> int \<Rightarrow> int \<Rightarrow> int" where
  "ymd2ord year month day = days_before_year year + days_before_month year month + day"

definition ord2ymd :: "int \<Rightarrow> int \<times> int \<times> int" where
  "ord2ymd ordinal =
     (let n = ordinal - 1;
          n400 = n div 146097; n = n mod 146097;
          year = n400 * 400 + 1;
          n100 = n div 36524; n = n mod 36524;
          n4 = n div 1461; n = n mod 1461;
          n1 = n div 365; n = n mod 365;
          year = year + n100 * 100 + n4 * 4 + n1
      in if n1 = 4 \<or> n100 = 4 then (year - 1, 12, 31)
         else
           (let leapyear = (n1 = 3 \<and> (n4 \<noteq> 24 \<or> n100 = 3));
                month = (n + 50) div 32;
                preceding = DAYS_BEFORE_MONTH ! nat month
                              + (if month > 2 \<and> leapyear then 1 else 0)
            in if preceding > n then
                 (let month = month - 1;
                      preceding = preceding - (DAYS_IN_MONTH ! nat month
                                    + (if month = 2 \<and> leapyear then 1 else 0))
                  in (year, month, n - preceding + 1))
               else (year, month, n - preceding + 1)))"

text \<open>\<^verbatim>\<open>datetime.datetime (year, month, day, hour, minute, second, 0)\<close>: an argument beyond
  a C \<^verbatim>\<open>int\<close> raises \<^verbatim>\<open>OverflowError\<close>, a field out of range \<^verbatim>\<open>ValueError\<close>.\<close>

definition datetime_new :: "int \<Rightarrow> int \<Rightarrow> int \<Rightarrow> int \<Rightarrow> int \<Rightarrow> int \<Rightarrow> error + int" where
  "datetime_new year month day hour minute second =
     (if list_ex (\<lambda>v. v > 2147483647 \<or> v < - 2147483648)
           [year, month, day, hour, minute, second]
      then Inl OverflowError
      else if year < 1 \<or> year > 9999 then Inl ValueError
      else if month < 1 \<or> month > 12 then Inl ValueError
      else if day < 1 \<or> day > days_in_month year month then Inl ValueError
      else if hour < 0 \<or> hour > 23 then Inl ValueError
      else if minute < 0 \<or> minute > 59 then Inl ValueError
      else if second < 0 \<or> second > 59 then Inl ValueError
      else Inr (ymd2ord year month day * 86400 + hour * 3600 + minute * 60 + second))"

text \<open>\<^verbatim>\<open>datetime.min\<close>, and \<^verbatim>\<open>dt - timedelta (0, n)\<close>, which raises \<^verbatim>\<open>OverflowError\<close> below
  it.\<close>

definition datetime_min :: int where
  "datetime_min = 86400"

definition datetime_sub :: "int \<Rightarrow> int \<Rightarrow> error + int" where
  "datetime_sub dt n = (if dt - n < datetime_min then Inl OverflowError else Inr (dt - n))"

text \<open>\<^verbatim>\<open>dt.strftime ("%Y-%m-%dT%H:%M:%SZ")\<close>, for years of four digits.\<close>

definition digits2 :: "int \<Rightarrow> string" where
  "digits2 n = [char_of (48 + n div 10), char_of (48 + n mod 10)]"

definition digits4 :: "int \<Rightarrow> string" where
  "digits4 n = [char_of (48 + n div 1000), char_of (48 + n div 100 mod 10),
                char_of (48 + n div 10 mod 10), char_of (48 + n mod 10)]"

definition strftime :: "int \<Rightarrow> string" where
  "strftime dt =
     (case ord2ymd (dt div 86400) of (year, month, day) \<Rightarrow>
        (let s = dt mod 86400
         in digits4 year @ ''-'' @ digits2 month @ ''-'' @ digits2 day @ ''T''
            @ digits2 (s div 3600) @ '':'' @ digits2 (s div 60 mod 60) @ '':''
            @ digits2 (s mod 60) @ ''Z''))"

text \<open>\<^verbatim>\<open>convert_to_epoch\<close> parses with \<^verbatim>\<open>time.strptime\<close> the string that \<^verbatim>\<open>strftime\<close> has
  just produced from a valid date-time, which cannot fail, and \<^verbatim>\<open>time.mktime\<close> reads the
  fields as local time. The model takes the date-time itself and the local zone to be
  UTC (the script only needs the epoch to be consistent within a run): the seconds since
  1970-01-01, ordinal 719163.\<close>

definition convert_to_epoch :: "int \<Rightarrow> int" where
  "convert_to_epoch dt = dt - 719163 * 86400"

section \<open>Session state and samples\<close>

text \<open>The module-level variables of the script, with their initial values.\<close>

record session =
  previousLatitude :: real
  previousLongitude :: real
  videoStartTs :: "int option"
  videoStartWrongAtoms :: int

definition initial_session :: session where
  "initial_session =
     \<lparr>previousLatitude = 0, previousLongitude = 0,
      videoStartTs = None, videoStartWrongAtoms = 0\<rparr>"

text \<open>The nested dictionary \<^verbatim>\<open>gps\<close>, flattened: \<^verbatim>\<open>gps['Loc']['Lat']['Float']\<close> is
  \<open>Lat_Float\<close>, \<^verbatim>\<open>gps['DT']['DT']\<close> is \<open>DT\<close>.\<close>

record sample =
  Epoch :: int
  Year :: int
  Month :: int
  Day :: int
  Hour :: int
  Minute :: int
  Second :: int
  DT :: string
  Lat_Raw :: real
  Lat_Hemi :: char
  Lat_Float :: real
  Lon_Raw :: real
  Lon_Hemi :: char
  Lon_Float :: real
  Speed :: real
  Bearing :: real
  FrameTimePosition :: int
  FrameIsFarEnough :: string

section \<open>Geometry\<close>

text \<open>\<^verbatim>\<open>R\<close>, the radius of the Earth in km; \<^verbatim>\<open>d\<close>, one metre in km; \<^verbatim>\<open>minimalDistance\<close>.\<close>

definition R_km :: real where
  "R_km = 6378.1"

definition d_km :: real where
  "d_km = 0.001"

definition minimalDistance :: real where
  "minimalDistance = 0.005"

text \<open>\<^verbatim>\<open>math.asin\<close> and \<^verbatim>\<open>math.sqrt\<close> raise \<^verbatim>\<open>ValueError\<close> outside their domains.\<close>

definition py_asin :: "real \<Rightarrow> error + real" where
  "py_asin x = (if x < - 1 \<or> 1 < x then Inl ValueError else Inr (arcsin x))"

definition py_sqrt :: "real \<Rightarrow> error + real" where
  "py_sqrt x = (if x < 0 then Inl ValueError else Inr (sqrt x))"

text \<open>One step of \<^verbatim>\<open>distance_position_if_bearingCorrection\<close>: the point \<^verbatim>\<open>d\<close> km from
  \<open>(lat1rad, lon1rad)\<close> along \<open>bearing\<close> (degrees).\<close>

definition destination :: "real \<Rightarrow> real \<Rightarrow> real \<Rightarrow> error + (real \<times> real)" where
  "destination lat1rad lon1rad bearing =
     ebind (py_asin (sin lat1rad * cos (d_km / R_km)
                     + cos lat1rad * sin (d_km / R_km) * cos (radians bearing)))
       (\<lambda>lat2rad.
          Inr (lat2rad,
               lon1rad + atan2 (sin (radians bearing) * sin (d_km / R_km) * cos lat1rad)
                               (cos (d_km / R_km) - sin lat1rad * sin lat2rad)))"

definition distance_position_if_bearingCorrection ::
    "real \<Rightarrow> real \<Rightarrow> real \<Rightarrow> int \<Rightarrow> error + (real \<times> real)" where
  "distance_position_if_bearingCorrection lat1 lon1 bearing bearingCorrection =
     (if bearingCorrection = 0 then Inr (lat1, lon1)
      else
        (let bearing2 = py_fmod (bearing + 180) 360
         in ebind (destination (radians lat1) (radians lon1) bearing2)
              (\<lambda>(lat2rad, lon2rad).
                 let bearing3 = py_fmod (bearing + of_int bearingCorrection) 360
                 in ebind (destination lat2rad lon2rad bearing3)
                      (\<lambda>(lat3rad, lon3rad). Inr (degrees lat3rad, degrees lon3rad)))))"

text \<open>\<^verbatim>\<open>isFrameFarEnoughFromPrevious\<close>, with the two globals it reads and writes in the
  session.\<close>

definition isFrameFarEnoughFromPrevious ::
    "real \<Rightarrow> real \<Rightarrow> session \<Rightarrow> error + (string \<times> session)" where
  "isFrameFarEnoughFromPrevious latitude longitude st =
     (if previousLatitude st = 0 then
        Inr (''Y'', st\<lparr>previousLatitude := latitude, previousLongitude := longitude\<rparr>)
      else
        (let lat1 = radians (previousLatitude st);
             lon1 = radians (previousLongitude st);
             lat2 = radians latitude;
             lon2 = radians longitude;
             dlon = lon2 - lon1;
             dlat = lat2 - lat1;
             a = (sin (dlat / 2))\<^sup>2 + cos lat1 * cos lat2 * (sin (dlon / 2))\<^sup>2
         in ebind (py_sqrt a) (\<lambda>sa.
            ebind (py_sqrt (1 - a)) (\<lambda>sb.
              let c = 2 * atan2 sa sb;
                  distance = R_km * c
              in if distance > minimalDistance then
                   Inr (''Y'', st\<lparr>previousLatitude := latitude,
                                  previousLongitude := longitude\<rparr>)
                 else Inr (''N'', st)))))"

section \<open>Payload decoder\<close>

text \<open>\<^verbatim>\<open>deobfuscate_coord\<close>.\<close>

definition deobfuscate_coord :: "real \<Rightarrow> real \<Rightarrow> real \<times> real" where
  "deobfuscate_coord latitude longitude =
     ((latitude - 187.98217) / 3, (longitude - 2199.19876) * 0.5)"

text \<open>The test of \<^verbatim>\<open>get_gps_offset\<close> on the three bytes unpacked at \<open>pointer\<close>. The
  script decodes them first and ignores \<^verbatim>\<open>UnicodeDecodeError\<close>; a byte left undecoded is
  a \<^verbatim>\<open>bytes\<close> object, unequal to every string, and a decoded ASCII byte is its
  character, so the test is on the byte values: \<open>A\<close>, then \<open>N\<close> or \<open>S\<close>, then \<open>E\<close> or \<open>W\<close>.\<close>

definition is_marker :: "byte list \<Rightarrow> bool" where
  "is_marker sss =
     (case sss of
        [active, lon_hemi, lat_hemi] \<Rightarrow>
          active = 0x41 \<and> lon_hemi \<in> set [0x4E, 0x53] \<and> lat_hemi \<in> set [0x45, 0x57]
      | _ \<Rightarrow> False)"

text \<open>The \<^verbatim>\<open>while pointer > beginning\<close> loop of \<^verbatim>\<open>get_gps_offset\<close>: \<open>Some offset\<close> at the
  \<^verbatim>\<open>break\<close>, \<open>None\<close> when the loop runs out (the \<^verbatim>\<open>else\<close> of the \<^verbatim>\<open>while\<close>).\<close>

function get_gps_offset_loop :: "byte list \<Rightarrow> int \<Rightarrow> error + int option" where
  "get_gps_offset_loop data pointer =
     (if pointer > 0 then
        (case struct_slice data pointer 3 of
           Inl e \<Rightarrow> Inl e
         | Inr sss \<Rightarrow>
             if is_marker sss then Inr (Some (pointer - 24))
             else get_gps_offset_loop data (pointer - 1))
      else Inr None)"
  by pat_completeness auto
termination
  by (relation "measure (\<lambda>(data, pointer). nat pointer)") auto

definition get_gps_offset :: "byte list \<Rightarrow> session \<Rightarrow> error + (int \<times> session)" where
  "get_gps_offset data st =
     (case get_gps_offset_loop data (int (length data) - 20) of
        Inl e \<Rightarrow> Inl e
      | Inr (Some offset) \<Rightarrow> Inr (offset, st)
      | Inr None \<Rightarrow>
          Inr (- 1,
               if videoStartTs st = None
               then st\<lparr>videoStartWrongAtoms := videoStartWrongAtoms st + 1\<rparr>
               else st))"

text \<open>\<^verbatim>\<open>int (s)\<close> on a string of characters below 256, given as their code points:
  surrounding white space (the ASCII blanks, \<open>0x85\<close> and \<open>0xA0\<close>) is dropped, a sign may
  lead, and the decimal digits may be separated by single underscores. \<open>None\<close> is
  \<^verbatim>\<open>ValueError\<close>.\<close>

definition py_isspace :: "byte \<Rightarrow> bool" where
  "py_isspace c = (c \<in> set [0x09, 0x0A, 0x0B, 0x0C, 0x0D, 0x20, 0x85, 0xA0])"

definition py_isdigit :: "byte \<Rightarrow> bool" where
  "py_isdigit c = (0x30 \<le> c \<and> c \<le> 0x39)"

fun py_digits :: "bool \<Rightarrow> int \<Rightarrow> byte list \<Rightarrow> int option" where
  "py_digits prev acc [] = (if prev then Some acc else None)"
| "py_digits prev acc (c # cs) =
     (if py_isdigit c then py_digits True (acc * 10 + (uint c - 48)) cs
      else if c = 0x5F \<and> prev then py_digits False acc cs
      else None)"

definition py_int :: "byte list \<Rightarrow> int option" where
  "py_int s =
     (let t = rev (dropWhile py_isspace (rev (dropWhile py_isspace s)))
      in case t of
           [] \<Rightarrow> None
         | c # cs \<Rightarrow>
             if c = 0x2D then map_option uminus (py_digits False 0 cs)
             else if c = 0x2B then py_digits False 0 cs
             else py_digits False 0 t)"

text \<open>A Python slice \<^verbatim>\<open>xs[i:j]\<close> with \<open>0 \<le> i \<le> j\<close>.\<close>

definition slice :: "'a list \<Rightarrow> nat \<Rightarrow> nat \<Rightarrow> 'a list" where
  "slice xs i j = take (j - i) (drop i xs)"

text \<open>\<^verbatim>\<open>decode_azdome\<close>. The function assigns \<^verbatim>\<open>videoStartTs\<close> without declaring it
  \<^verbatim>\<open>global\<close>, so the name is local to it and the test \<^verbatim>\<open>if videoStartTs is None\<close> raises
  \<^verbatim>\<open>UnboundLocalError\<close>, which the handler for \<^verbatim>\<open>ValueError\<close> does not catch. The statements
  after that test are never reached: the function returns \<^verbatim>\<open>None\<close> (a field that does not
  parse, or a date out of range) or raises.\<close>

definition decode_azdome :: "byte list \<Rightarrow> error + sample option" where
  "decode_azdome data =
     (let payload = map (\<lambda>b. b XOR 0xAA) data
      in case (py_int (slice payload 14 18), py_int (slice payload 18 20),
               py_int (slice payload 20 22), py_int (slice payload 22 24),
               py_int (slice payload 24 26), py_int (slice payload 26 28)) of
           (Some year, Some month, Some day, Some hour, Some minute, Some second) \<Rightarrow>
             (case datetime_new (year + 2000) month day hour minute second of
                Inl ValueError \<Rightarrow> Inr None
              | Inl e \<Rightarrow> Inl e
              | Inr videoCurrentTs \<Rightarrow> Inl UnboundLocalError)
         | _ \<Rightarrow> Inr None)"

text \<open>The body of \<^verbatim>\<open>if not azdome and offset >= 0\<close> in \<^verbatim>\<open>get_gps_data\<close>, followed by the
  epoch: the standard binary record at \<open>offset\<close>.\<close>

definition decode_standard ::
    "byte list \<Rightarrow> int \<Rightarrow> bool \<Rightarrow> int \<Rightarrow> bool \<Rightarrow> session
       \<Rightarrow> error + (sample option \<times> session)" where
  "decode_standard data offset deobfuscate bearingCorrection doNotBearingDistance st =
     ebind (struct_slice data offset 12) (\<lambda>hms.
     ebind (struct_slice data (offset + 12) 12) (\<lambda>ymd.
     ebind (struct_slice data (offset + 24) 3) (\<lambda>sss.
     ebind (struct_slice data (offset + 28) 8) (\<lambda>ll.
     ebind (f32_le (take 4 ll)) (\<lambda>lat_raw0.
     ebind (f32_le (drop 4 ll)) (\<lambda>lon_raw0.
     ebind (struct_slice data (offset + 36) 8) (\<lambda>sb.
     ebind (f32_le (take 4 sb)) (\<lambda>speed0.
     ebind (f32_le (drop 4 sb)) (\<lambda>bearing0.
       if \<not> is_ascii sss then Inr (None, st)
       else
         (let hour = u32_le (take 4 hms);
              minute = u32_le (take 4 (drop 4 hms));
              second = u32_le (drop 8 hms);
              year = u32_le (take 4 ymd);
              month = u32_le (take 4 (drop 4 ymd));
              day = u32_le (drop 8 ymd);
              lat_hemi = byte_char (sss ! 1);
              lon_hemi = byte_char (sss ! 2);
              (lat_raw, lon_raw) =
                 (if deobfuscate then deobfuscate_coord lat_raw0 lon_raw0
                  else (lat_raw0, lon_raw0))
          in ebind (datetime_new (year + 2000) month day hour minute second) (\<lambda>dt0.
             ebind (datetime_sub dt0 1) (\<lambda>videoCurrentTs.
             ebind (case videoStartTs st of
                      None \<Rightarrow> datetime_sub videoCurrentTs (videoStartWrongAtoms st)
                    | Some start \<Rightarrow> Inr start) (\<lambda>start.
               let st1 = st\<lparr>videoStartTs := Some start\<rparr>;
                   lat = fix_coordinates lat_hemi lat_raw deobfuscate;
                   lon = fix_coordinates lon_hemi lon_raw deobfuscate
               in ebind (isFrameFarEnoughFromPrevious lat lon st1) (\<lambda>(far, st2).
                  ebind (if \<not> doNotBearingDistance
                         then distance_position_if_bearingCorrection lat lon bearing0
                                bearingCorrection
                         else Inr (lat, lon)) (\<lambda>(lat_moved, lon_moved).
                    Inr (Some \<lparr>Epoch = convert_to_epoch videoCurrentTs,
                               Year = year, Month = month, Day = day,
                               Hour = hour, Minute = minute, Second = second,
                               DT = strftime videoCurrentTs,
                               Lat_Raw = lat_raw, Lat_Hemi = lat_hemi,
                               Lat_Float = lat_moved,
                               Lon_Raw = lon_raw, Lon_Hemi = lon_hemi,
                               Lon_Float = lon_moved,
                               Speed = fix_speed speed0,
                               Bearing = correct_bearing_float bearing0 bearingCorrection,
                               FrameTimePosition = videoCurrentTs - start,
                               FrameIsFarEnough = far\<rparr>,
                         st2))))))))))))))))"

text \<open>\<^verbatim>\<open>get_gps_data\<close>. The marker search runs first, on every region. A leading byte
  \<open>0x05\<close> or \<open>0xF0\<close> tries \<^verbatim>\<open>decode_azdome\<close>; when that returns a record, \<^verbatim>\<open>azdome\<close> is set
  and the \<^verbatim>\<open>else\<close> of \<^verbatim>\<open>if not azdome and offset >= 0\<close> returns \<^verbatim>\<open>None\<close>.\<close>

definition get_gps_data ::
    "byte list \<Rightarrow> bool \<Rightarrow> int \<Rightarrow> bool \<Rightarrow> session \<Rightarrow> error + (sample option \<times> session)" where
  "get_gps_data data deobfuscate bearingCorrection doNotBearingDistance st =
     ebind (get_gps_offset data st) (\<lambda>(offset, st1).
     ebind (struct_slice data 0 1) (\<lambda>c.
     ebind (if c \<in> set [[0x05], [0xF0]] then decode_azdome data else Inr None) (\<lambda>out.
       let azdome = (out \<noteq> None)
       in if \<not> azdome \<and> offset \<ge> 0
          then decode_standard data offset deobfuscate bearingCorrection
                 doNotBearingDistance st1
          else Inr (None, st1))))"

section \<open>Container scanner\<close>

text \<open>A file is its bytes. Every \<^verbatim>\<open>read\<close> of the scanners happens at a position the
  script has just set by \<^verbatim>\<open>seek\<close> (or reached by the previous \<^verbatim>\<open>read\<close>), so a read is
  \<open>read_at file pos n\<close>: at most \<open>n\<close> bytes, fewer at the end of the file.\<close>

definition read_at :: "byte list \<Rightarrow> int \<Rightarrow> nat \<Rightarrow> byte list" where
  "read_at file pos n = take n (drop (nat pos) file)"

text \<open>\<^verbatim>\<open>get_atom_info\<close>: \<^verbatim>\<open>struct.unpack ('>I4s', eight_bytes)\<close> wants exactly 8 bytes and
  \<^verbatim>\<open>struct.error\<close> is caught. The type is kept as its bytes; a type that is not ASCII is
  written \<^verbatim>\<open>UNKNOWN\<close> (it fails to decode, or decodes to a non-ASCII string that equals
  no name the parser tests).\<close>

definition get_atom_info :: "byte list \<Rightarrow> int \<times> byte list" where
  "get_atom_info eight_bytes =
     (if length eight_bytes \<noteq> 8 then (0, [])
      else
        (let atom_size = u32_be (take 4 eight_bytes);
             atom_type = drop 4 eight_bytes
         in (atom_size, if is_ascii atom_type then atom_type else ascii ''UNKNOWN'')))"

text \<open>\<^verbatim>\<open>get_gps_atom_info\<close>: \<^verbatim>\<open>struct.unpack ('>II', eight_bytes)\<close>, not caught.\<close>

definition get_gps_atom_info :: "byte list \<Rightarrow> error + (int \<times> int)" where
  "get_gps_atom_info eight_bytes =
     (if length eight_bytes \<noteq> 8 then Inl StructError
      else Inr (u32_be (take 4 eight_bytes), u32_be (drop 4 eight_bytes)))"

text \<open>\<^verbatim>\<open>get_gps_atom\<close>. \<^verbatim>\<open>struct.unpack_from ('>I4s4s', data)\<close> stands before the \<^verbatim>\<open>try\<close>
  and needs 12 bytes. A type or magic that is not ASCII raises \<^verbatim>\<open>UnicodeDecodeError\<close> or
  fails the comparison; both return \<^verbatim>\<open>None\<close>.\<close>

definition get_gps_atom ::
    "int \<times> int \<Rightarrow> byte list \<Rightarrow> bool \<Rightarrow> int \<Rightarrow> bool \<Rightarrow> session
       \<Rightarrow> error + (sample option \<times> session)" where
  "get_gps_atom gps_atom_info in_fh deobfuscate bearingCorrection doNotBearingDistance st =
     (case gps_atom_info of (atom_pos, atom_size) \<Rightarrow>
        if atom_size = 0 \<or> atom_pos = 0 then Inr (None, st)
        else
          (let data = read_at in_fh atom_pos (nat atom_size)
           in ebind (struct_slice data 0 12) (\<lambda>hdr.
                let atom_size1 = u32_be (take 4 hdr);
                    atom_type = take 4 (drop 4 hdr);
                    magic = drop 8 hdr
                in if \<not> is_ascii atom_type \<or> \<not> is_ascii magic then Inr (None, st)
                   else if atom_size \<noteq> atom_size1 \<or> atom_type \<noteq> ascii ''free''
                           \<or> magic \<noteq> ascii ''GPS ''
                   then Inr (None, st)
                   else get_gps_data (drop 12 data) deobfuscate bearingCorrection
                          doNotBearingDistance st)))"

text \<open>The three nested loops of \<^verbatim>\<open>parse_moov\<close>. The innermost walks the 8-byte entries of
  the \<^verbatim>\<open>gps\<close> descriptor and appends every result, \<^verbatim>\<open>None\<close> included.\<close>

function gps_entries_loop ::
    "byte list \<Rightarrow> int \<Rightarrow> int \<Rightarrow> bool \<Rightarrow> int \<Rightarrow> bool \<Rightarrow> sample option list \<Rightarrow> session
       \<Rightarrow> error + (sample option list \<times> session)" where
  "gps_entries_loop in_fh gps_offset limit deobfuscate bearingCorrection doNotBearingDistance
       gps_data st =
     (if gps_offset < limit then
        (case get_gps_atom_info (read_at in_fh gps_offset 8) of
           Inl e \<Rightarrow> Inl e
         | Inr info \<Rightarrow>
             (case get_gps_atom info in_fh deobfuscate bearingCorrection
                     doNotBearingDistance st of
                Inl e \<Rightarrow> Inl e
              | Inr (data, st1) \<Rightarrow>
                  gps_entries_loop in_fh (gps_offset + 8) limit deobfuscate bearingCorrection
                    doNotBearingDistance (gps_data @ [data]) st1))
      else Inr (gps_data, st))"
  by pat_completeness auto
termination
  by (relation "measure (\<lambda>(in_fh, gps_offset, limit, _). nat (limit - gps_offset))") auto

text \<open>The loop over the sub-atoms of \<^verbatim>\<open>moov\<close> adds \<^verbatim>\<open>sub_atom_size\<close> to \<^verbatim>\<open>sub_offset\<close>; a
  sub-atom of size 0 (or a read past the end of the file, which \<^verbatim>\<open>get_atom_info\<close> turns
  into size 0) leaves it where it is, and the loop does not end. \<open>None\<close> is that case.\<close>

partial_function (option) sub_atoms_loop ::
    "byte list \<Rightarrow> int \<Rightarrow> int \<Rightarrow> bool \<Rightarrow> int \<Rightarrow> bool \<Rightarrow> sample option list \<Rightarrow> session
       \<Rightarrow> (error + (sample option list \<times> session)) option" where
  "sub_atoms_loop in_fh sub_offset limit deobfuscate bearingCorrection doNotBearingDistance
       gps_data st =
     (if sub_offset < limit then
        (case get_atom_info (read_at in_fh sub_offset 8) of
           (sub_atom_size, sub_atom_type) \<Rightarrow>
             (case (if sub_atom_type = ascii ''gps ''
                    then gps_entries_loop in_fh (16 + sub_offset) (sub_offset + sub_atom_size)
                           deobfuscate bearingCorrection doNotBearingDistance gps_data st
                    else Inr (gps_data, st)) of
                Inl e \<Rightarrow> Some (Inl e)
              | Inr (gps_data1, st1) \<Rightarrow>
                  sub_atoms_loop in_fh (sub_offset + sub_atom_size) limit deobfuscate
                    bearingCorrection doNotBearingDistance gps_data1 st1))
      else Some (Inr (gps_data, st)))"

partial_function (option) parse_moov_loop ::
    "byte list \<Rightarrow> int \<Rightarrow> bool \<Rightarrow> int \<Rightarrow> bool \<Rightarrow> sample option list \<Rightarrow> bool \<Rightarrow> session
       \<Rightarrow> (error + ((sample option list \<times> bool) \<times> session)) option" where
  "parse_moov_loop in_fh offset deobfuscate bearingCorrection doNotBearingDistance
       gps_data is_moov st =
     (case get_atom_info (read_at in_fh offset 8) of
        (atom_size, atom_type) \<Rightarrow>
          if atom_size = 0 then Some (Inr ((gps_data, is_moov), st))
          else if atom_type = ascii ''moov'' then
            (case sub_atoms_loop in_fh (offset + 8) (offset + atom_size) deobfuscate
                    bearingCorrection doNotBearingDistance gps_data st of
               None \<Rightarrow> None
             | Some (Inl e) \<Rightarrow> Some (Inl e)
             | Some (Inr (gps_data1, st1)) \<Rightarrow>
                 parse_moov_loop in_fh (offset + atom_size) deobfuscate bearingCorrection
                   doNotBearingDistance gps_data1 True st1)
          else parse_moov_loop in_fh (offset + atom_size) deobfuscate bearingCorrection
                 doNotBearingDistance gps_data is_moov st)"

definition parse_moov ::
    "byte list \<Rightarrow> bool \<Rightarrow> int \<Rightarrow> bool \<Rightarrow> session
       \<Rightarrow> (error + ((sample option list \<times> bool) \<times> session)) option" where
  "parse_moov in_fh deobfuscate bearingCorrection doNotBearingDistance st =
     parse_moov_loop in_fh 0 deobfuscate bearingCorrection doNotBearingDistance [] False st"

text \<open>\<^verbatim>\<open>parse_ts\<close>: one step on the packet at \<open>position\<close> yields the new \<^verbatim>\<open>gps_data\<close>,
  \<^verbatim>\<open>partial\<close> and session; the loop goes on until a read of the header returns nothing.\<close>

definition parse_ts_packet ::
    "byte list \<Rightarrow> nat \<Rightarrow> byte list \<Rightarrow> bool \<Rightarrow> int \<Rightarrow> bool \<Rightarrow> sample option list \<Rightarrow> session
       \<Rightarrow> error + (sample option list \<times> byte list \<times> session)" where
  "parse_ts_packet in_fh position partial deobfuscate bearingCorrection doNotBearingDistance
       gps_data st =
     (let header = read_at in_fh (int position) 4
      in if slice header 1 3 \<in> set [[0x43, 0x00], [0x03, 0x00]] then
           (let frame = read_at in_fh (int position + 4) 184
            in if take 4 frame = [0x00, 0x00, 0x01, 0xBF] then
                 ebind (get_gps_data frame deobfuscate bearingCorrection
                          doNotBearingDistance st) (\<lambda>(data, st1).
                   if data \<noteq> None then Inr (gps_data @ [data], partial, st1)
                   else Inr (gps_data, drop (length frame - 14) frame, st1))
               else if partial \<noteq> [] then
                 ebind (struct_slice (take 1 frame) 0 1) (\<lambda>b.
                   let jump = unat (hd b) + 1
                   in ebind (get_gps_data (partial @ drop jump frame) deobfuscate
                               bearingCorrection doNotBearingDistance st) (\<lambda>(data, st1).
                        Inr (gps_data @ [data], [], st1)))
               else Inr (gps_data, partial, st))
         else Inr (gps_data, partial, st))"

function parse_ts_loop ::
    "byte list \<Rightarrow> nat \<Rightarrow> byte list \<Rightarrow> bool \<Rightarrow> int \<Rightarrow> bool \<Rightarrow> sample option list \<Rightarrow> session
       \<Rightarrow> error + (sample option list \<times> session)" where
  "parse_ts_loop in_fh position partial deobfuscate bearingCorrection doNotBearingDistance
       gps_data st =
     (case parse_ts_packet in_fh position partial deobfuscate bearingCorrection
             doNotBearingDistance gps_data st of
        Inl e \<Rightarrow> Inl e
      | Inr (gps_data1, partial1, st1) \<Rightarrow>
          if read_at in_fh (int position) 4 = [] then Inr (gps_data1, st1)
          else parse_ts_loop in_fh (position + 188) partial1 deobfuscate bearingCorrection
                 doNotBearingDistance gps_data1 st1)"
  by pat_completeness auto
termination
proof (relation "measure (\<lambda>(in_fh, position, _). length in_fh - position)")
  show "wf (measure (\<lambda>(in_fh, position, _). length in_fh - position))" by simp
next
  fix in_fh :: "byte list" and position :: nat and partial deobfuscate
    and bearingCorrection :: int and doNotBearingDistance
    and gps_data :: "sample option list" and st :: session
    and x2 x y xa ya
  assume "read_at in_fh (int position) 4 \<noteq> []"
  then have "position < length in_fh"
    by (cases "position < length in_fh") (simp_all add: read_at_def)
  then show "((in_fh, position + 188, ya, deobfuscate, bearingCorrection,
               doNotBearingDistance, x, xa),
              (in_fh, position, partial, deobfuscate, bearingCorrection,
               doNotBearingDistance, gps_data, st))
             \<in> measure (\<lambda>(in_fh, position, _). length in_fh - position)"
    by simp
qed

definition parse_ts ::
    "byte list \<Rightarrow> bool \<Rightarrow> int \<Rightarrow> bool \<Rightarrow> session
       \<Rightarrow> error + ((sample option list \<times> bool) \<times> session)" where
  "parse_ts in_fh deobfuscate bearingCorrection doNotBearingDistance st =
     (if read_at in_fh 0 1 = [0x47] \<and> read_at in_fh 188 1 = [0x47]
         \<and> read_at in_fh 376 1 = [0x47]
      then ebind (parse_ts_loop in_fh 0 [] deobfuscate bearingCorrection
                    doNotBearingDistance [] st) (\<lambda>(gps_data, st1).
             Inr ((gps_data, True), st1))
      else Inr (([], False), st))"

section \<open>Track normalisation\<close>

text \<open>\<^verbatim>\<open>calculate_speed\<close>. \<^verbatim>\<open>hav_h ** 0.5\<close> of a negative float is a complex number, on
  which \<^verbatim>\<open>math.asin\<close> raises \<^verbatim>\<open>TypeError\<close>; the epochs are integers, and a zero difference
  raises \<^verbatim>\<open>ZeroDivisionError\<close>, caught to return \<open>0.0\<close>.\<close>

definition calculate_speed :: "real \<times> real \<times> int \<Rightarrow> real \<times> real \<times> int \<Rightarrow> error + real" where
  "calculate_speed coord_dt1 coord_dt2 =
     (case coord_dt1 of (lat1d, lon1d, dt1) \<Rightarrow>
      case coord_dt2 of (lat2d, lon2d, dt2) \<Rightarrow>
        (let lat1 = radians lat1d;
             lon1 = radians lon1d;
             lat2 = radians lat2d;
             lon2 = radians lon2d;
             earth_r = 6378100;
             hav_lat = (1 - cos (lat2 - lat1)) / 2;
             hav_lon = (1 - cos (lon2 - lon1)) / 2;
             hav_h = hav_lat + cos lat1 * cos lat2 * hav_lon
         in if hav_h < 0 then Inl TypeError
            else ebind (py_asin (sqrt hav_h)) (\<lambda>asin_h.
                   let distance = 2 * earth_r * asin_h
                   in if \<bar>dt2 - dt1\<bar> = 0 then Inr 0
                      else Inr (distance / real_of_int \<bar>dt2 - dt1\<bar>))))"

text \<open>The second loop of \<^verbatim>\<open>remove_outliers\<close>: \<^verbatim>\<open>TypeError\<close> skips the point, a speed above
  1000 drops it, any other point is appended.\<close>

fun remove_outliers_loop ::
    "real \<times> real \<times> int \<Rightarrow> sample list \<Rightarrow> sample list \<Rightarrow> error + sample list" where
  "remove_outliers_loop mid_point [] gps_data_filtered = Inr gps_data_filtered"
| "remove_outliers_loop mid_point (data_point # rest) gps_data_filtered =
     (case calculate_speed mid_point
             (Lat_Float data_point, Lon_Float data_point, Epoch data_point) of
        Inl TypeError \<Rightarrow> remove_outliers_loop mid_point rest gps_data_filtered
      | Inl e \<Rightarrow> Inl e
      | Inr speed \<Rightarrow>
          if speed > 1000 then remove_outliers_loop mid_point rest gps_data_filtered
          else remove_outliers_loop mid_point rest (gps_data_filtered @ [data_point]))"

definition mid_point_of :: "sample list \<Rightarrow> real \<times> real \<times> int" where
  "mid_point_of gps_data =
     (let lats = sort (map Lat_Float gps_data);
          lons = sort (map Lon_Float gps_data);
          epochs = sort (map Epoch gps_data)
      in (lats ! (length lats div 2), lons ! (length lons div 2),
          epochs ! (length epochs div 2)))"

definition remove_outliers :: "sample list \<Rightarrow> error + sample list" where
  "remove_outliers gps_data =
     (if gps_data = [] then Inr gps_data
      else remove_outliers_loop (mid_point_of gps_data) gps_data [])"

text \<open>\<^verbatim>\<open>GetCenterFromDegrees\<close>. On empty lists the script evaluates the undefined name
  \<^verbatim>\<open>false\<close>.\<close>

definition GetCenterFromDegrees :: "real list \<Rightarrow> real list \<Rightarrow> error + (real \<times> real)" where
  "GetCenterFromDegrees latArr lonArr =
     (if length latArr \<le> 0 then Inl NameError
      else
        (let num_coords = real (length latArr);
             pts = zip latArr lonArr;
             X = sum_list (map (\<lambda>(lat, lon). cos (lat * pi / 180) * cos (lon * pi / 180)) pts)
                   / num_coords;
             Y = sum_list (map (\<lambda>(lat, lon). cos (lat * pi / 180) * sin (lon * pi / 180)) pts)
                   / num_coords;
             Z = sum_list (map (\<lambda>(lat, lon). sin (lat * pi / 180)) pts) / num_coords;
             lon = atan2 Y X;
             hyp = sqrt (X * X + Y * Y);
             lat = atan2 Z hyp
         in Inr (lat * 180 / pi, lon * 180 / pi)))"

text \<open>The dictionary \<^verbatim>\<open>gps_data_dict\<close> keeps its keys in the order of first insertion: an
  association list. \<open>dict_append d k v\<close> is
  \<^verbatim>\<open>if k in d: d[k].append (v) else: d[k] = [v]\<close>.\<close>

fun dict_append :: "('k \<times> 'v list) list \<Rightarrow> 'k \<Rightarrow> 'v \<Rightarrow> ('k \<times> 'v list) list" where
  "dict_append [] k v = [(k, [v])]"
| "dict_append ((k', vs) # d) k v =
     (if k' = k then (k', vs @ [v]) # d else (k', vs) # dict_append d k v)"

definition gps_data_dict :: "sample list \<Rightarrow> (string \<times> sample list) list" where
  "gps_data_dict gps_data = foldl (\<lambda>d data_point. dict_append d (DT data_point) data_point) [] gps_data"

text \<open>The \<^verbatim>\<open>else\<close> branch of the second loop of \<^verbatim>\<open>merge_duplicates\<close>: the first member of
  the group, with five fields overwritten.\<close>

definition merge_values :: "sample list \<Rightarrow> error + sample" where
  "merge_values vals =
     (let latArr = map Lat_Float vals;
          lonArr = map Lon_Float vals;
          speedArr = map Speed vals;
          bearingArr = map Bearing vals;
          frameIsFarEnough = (if list_ex (\<lambda>v. FrameIsFarEnough v = ''Y'') vals
                              then ''Y'' else ''N'')
      in ebind (GetCenterFromDegrees latArr lonArr) (\<lambda>(latCenter, lonCenter).
           Inr ((hd vals)\<lparr>Lat_Float := latCenter, Lon_Float := lonCenter,
                           Speed := sum_list speedArr / real (length speedArr),
                           Bearing := sum_list bearingArr / real (length bearingArr),
                           FrameIsFarEnough := frameIsFarEnough\<rparr>)))"

fun merge_duplicates_loop :: "sample list list \<Rightarrow> sample list \<Rightarrow> error + sample list" where
  "merge_duplicates_loop [] gps_data_filtered = Inr gps_data_filtered"
| "merge_duplicates_loop (vals # rest) gps_data_filtered =
     (if length vals = 1 then merge_duplicates_loop rest (gps_data_filtered @ [hd vals])
      else
        (case merge_values vals of
           Inl e \<Rightarrow> Inl e
         | Inr center_data_point \<Rightarrow>
             merge_duplicates_loop rest (gps_data_filtered @ [center_data_point])))"

definition merge_duplicates :: "sample list \<Rightarrow> error + sample list" where
  "merge_duplicates gps_data =
     (if gps_data = [] then Inr gps_data
      else merge_duplicates_loop (map snd (gps_data_dict gps_data)) [])"

section \<open>Files and runs\<close>

text \<open>\<^verbatim>\<open>list (filter (None, gps_data))\<close>.\<close>

definition filter_None :: "sample option list \<Rightarrow> sample list" where
  "filter_None gps_data = List.map_filter (\<lambda>x. x) gps_data"

text \<open>\<^verbatim>\<open>process_file\<close>, given the bytes of the file. \<open>None\<close>: the scan does not end.\<close>

definition process_file ::
    "byte list \<Rightarrow> bool \<Rightarrow> bool \<Rightarrow> bool \<Rightarrow> int \<Rightarrow> bool \<Rightarrow> session
       \<Rightarrow> (error + (sample list \<times> session)) option" where
  "process_file in_fh deobfuscate del_outliers del_duplicates bearingCorrection
       doNotBearingDistance st =
     (case parse_moov in_fh deobfuscate bearingCorrection doNotBearingDistance st of
        None \<Rightarrow> None
      | Some (Inl e) \<Rightarrow> Some (Inl e)
      | Some (Inr ((gps_data, is_moov), st1)) \<Rightarrow>
          Some (ebind (if \<not> is_moov
                       then ebind (parse_ts in_fh deobfuscate bearingCorrection
                                     doNotBearingDistance st1) (\<lambda>((gps_data2, is_ts), st2).
                              Inr (gps_data2, st2))
                       else Inr (gps_data, st1)) (\<lambda>(gps_data3, st3).
                ebind (if del_outliers then remove_outliers (filter_None gps_data3)
                       else Inr (filter_None gps_data3)) (\<lambda>out1.
                ebind (if del_duplicates then merge_duplicates out1 else Inr out1) (\<lambda>out2.
                  Inr (out2, st3))))))"

text \<open>The \<^verbatim>\<open>for in_file in in_files\<close> loop of \<^verbatim>\<open>main\<close>, in either output mode: the files are
  processed in order, and nothing between two calls of \<^verbatim>\<open>process_file\<close> touches the
  module-level variables, so each call starts in the session the previous one left. The
  result lists what each file contributed (one output file each with \<^verbatim>\<open>-m\<close>; their
  concatenation otherwise).\<close>

fun process_files ::
    "byte list list \<Rightarrow> bool \<Rightarrow> bool \<Rightarrow> bool \<Rightarrow> int \<Rightarrow> bool \<Rightarrow> session
       \<Rightarrow> (error + (sample list list \<times> session)) option" where
  "process_files [] deobfuscate del_outliers del_duplicates bearingCorrection
       doNotBearingDistance st = Some (Inr ([], st))"
| "process_files (in_file # in_files) deobfuscate del_outliers del_duplicates
       bearingCorrection doNotBearingDistance st =
     (case process_file in_file deobfuscate del_outliers del_duplicates bearingCorrection
             doNotBearingDistance st of
        None \<Rightarrow> None
      | Some (Inl e) \<Rightarrow> Some (Inl e)
      | Some (Inr (out, st1)) \<Rightarrow>
          (case process_files in_files deobfuscate del_outliers del_duplicates
                  bearingCorrection doNotBearingDistance st1 of
             None \<Rightarrow> None
           | Some (Inl e) \<Rightarrow> Some (Inl e)
           | Some (Inr (outs, st2)) \<Rightarrow> Some (Inr (out # outs, st2))))"

text \<open>A run of the script: a fresh interpreter, hence the initial session.\<close>

definition run ::
    "byte list list \<Rightarrow> bool \<Rightarrow> bool \<Rightarrow> bool \<Rightarrow> int \<Rightarrow> bool
       \<Rightarrow> (error + (sample list list \<times> session)) option" where
  "run in_files deobfuscate del_outliers del_duplicates bearingCorrection doNotBearingDistance =
     process_files in_files deobfuscate del_outliers del_duplicates bearingCorrection
       doNotBearingDistance initial_session"

section \<open>Example inputs\<close>

text \<open>A 44-byte standard record of 2023-07-24 at the given time of day: three \<^verbatim>\<open><I\<close> for
  hour, minute, second, three for year, month, day, the marker \<open>A N E\<close> and a padding
  byte, then four \<^verbatim>\<open><f\<close>: latitude \<open>2048.0\<close> (20 degrees 48 minutes), longitude \<open>1024.0\<close>,
  speed and bearing \<open>0.0\<close>. The marker stands at byte 24, 20 bytes before the end.\<close>

definition gps_record :: "byte \<Rightarrow> byte \<Rightarrow> byte \<Rightarrow> byte list" where
  "gps_record hour minute second =
     [hour, 0, 0, 0, minute, 0, 0, 0, second, 0, 0, 0,
      0x17, 0, 0, 0, 0x07, 0, 0, 0, 0x18, 0, 0, 0,
      0x41, 0x4E, 0x45, 0,
      0, 0, 0, 0x45, 0, 0, 0x80, 0x44,
      0, 0, 0, 0, 0, 0, 0, 0]"

text \<open>An MP4 file of 88 bytes: a \<^verbatim>\<open>moov\<close> atom of 32 bytes holding a \<^verbatim>\<open>gps\<close> descriptor
  with one entry, which names the \<^verbatim>\<open>free\<close> atom at byte 32, 56 bytes long, with the magic
  \<^verbatim>\<open>GPS\<close> and the given record.\<close>

definition mp4_file :: "byte list \<Rightarrow> byte list" where
  "mp4_file record =
     [0, 0, 0, 32, 0x6D, 0x6F, 0x6F, 0x76,
      0, 0, 0, 24, 0x67, 0x70, 0x73, 0x20, 0, 0, 0, 0, 0, 0, 0, 0,
      0, 0, 0, 32, 0, 0, 0, 56,
      0, 0, 0, 56, 0x66, 0x72, 0x65, 0x65, 0x47, 0x50, 0x53, 0x20] @ record"

text \<open>An MP4 file of 104 bytes whose descriptor has two entries: the first names an empty
  \<^verbatim>\<open>free\<close> atom of 8 bytes at byte 40 (a size and a type, no room for a magic), the
  second the \<^verbatim>\<open>free\<close> atom at byte 48 with a record.\<close>

definition mp4_file_short_atom :: "byte list" where
  "mp4_file_short_atom =
     [0, 0, 0, 40, 0x6D, 0x6F, 0x6F, 0x76,
      0, 0, 0, 32, 0x67, 0x70, 0x73, 0x20, 0, 0, 0, 0, 0, 0, 0, 0,
      0, 0, 0, 40, 0, 0, 0, 8,
      0, 0, 0, 48, 0, 0, 0, 56,
      0, 0, 0, 8, 0x66, 0x72, 0x65, 0x65,
      0, 0, 0, 56, 0x66, 0x72, 0x65, 0x65, 0x47, 0x50, 0x53, 0x20] @ gps_record 12 0 10"

text \<open>An MP4 file of 44 bytes whose descriptor has one entry, naming the \<^verbatim>\<open>free\<close> atom at
  byte 32: 12 bytes, its size, its type and the magic \<^verbatim>\<open>GPS\<close>, with no payload after
  them.\<close>

definition mp4_file_empty_payload :: "byte list" where
  "mp4_file_empty_payload =
     [0, 0, 0, 32, 0x6D, 0x6F, 0x6F, 0x76,
      0, 0, 0, 24, 0x67, 0x70, 0x73, 0x20, 0, 0, 0, 0, 0, 0, 0, 0,
      0, 0, 0, 32, 0, 0, 0, 12,
      0, 0, 0, 12, 0x66, 0x72, 0x65, 0x65, 0x47, 0x50, 0x53, 0x20]"

text \<open>The sample that the record of a given time yields when no displacement applies,
  up to the three fields that depend on the session.\<close>

definition record_sample :: "int \<Rightarrow> int \<Rightarrow> int \<Rightarrow> int \<Rightarrow> string \<Rightarrow> int \<Rightarrow> string \<Rightarrow> sample" where
  "record_sample hour minute second epoch dt position far =
     \<lparr>Epoch = epoch, Year = 23, Month = 7, Day = 24,
      Hour = hour, Minute = minute, Second = second, DT = dt,
      Lat_Raw = 2048, Lat_Hemi = CHR ''N'', Lat_Float = 20.8,
      Lon_Raw = 1024, Lon_Hemi = CHR ''E'', Lon_Float = 10.4,
      Speed = 0, Bearing = 0, FrameTimePosition = position, FrameIsFarEnough = far\<rparr>"

text \<open>A sample of a collected track with the given position, epoch, timestamp string,
  speed, bearing and far-enough flag.\<close>

definition track_point :: "real \<Rightarrow> real \<Rightarrow> int \<Rightarrow> string \<Rightarrow> real \<Rightarrow> real \<Rightarrow> string \<Rightarrow> sample" where
  "track_point lat lon epoch dt speed bearing far =
     \<lparr>Epoch = epoch, Year = 23, Month = 7, Day = 24, Hour = 12, Minute = 0, Second = 0,
      DT = dt, Lat_Raw = 0, Lat_Hemi = CHR ''N'', Lat_Float = lat,
      Lon_Raw = 0, Lon_Hemi = CHR ''E'', Lon_Float = lon,
      Speed = speed, Bearing = bearing, FrameTimePosition = 0, FrameIsFarEnough = far\<rparr>"

text \<open>The session after a sample at that position was accepted: the previous position
  is the record's, the video start timestamp and the counter of bad regions as given.\<close>

definition session_at :: "int \<Rightarrow> int \<Rightarrow> session" where
  "session_at start bad =
     \<lparr>previousLatitude = 20.8, previousLongitude = 10.4,
      videoStartTs = Some start, videoStartWrongAtoms = bad\<rparr>"

section \<open>Notions of the specification\<close>

text \<open>The marker pattern as the specification words it: at position \<open>p\<close> a byte \<open>A\<close>,
  followed by \<open>N\<close> or \<open>S\<close>, followed by \<open>E\<close> or \<open>W\<close>.\<close>

definition spec_marker_at :: "byte list \<Rightarrow> nat \<Rightarrow> bool" where
  "spec_marker_at data p \<longleftrightarrow>
     data ! p = 0x41 \<and> data ! (p + 1) \<in> {0x4E, 0x53} \<and> data ! (p + 2) \<in> {0x45, 0x57}"

text \<open>The haversine of an angle, the great-circle distance on a sphere of the given
  radius between two points in degrees, and the implied speed of a sample against a
  reference of latitude, longitude and epoch: the distance in metres over the absolute
  elapsed time, 0 when no time has elapsed.\<close>

definition spec_hav :: "real \<Rightarrow> real" where
  "spec_hav x = (sin (x / 2))\<^sup>2"

definition spec_haversine_distance :: "real \<Rightarrow> real \<times> real \<Rightarrow> real \<times> real \<Rightarrow> real" where
  "spec_haversine_distance radius a b =
     (case a of (lat1, lon1) \<Rightarrow> case b of (lat2, lon2) \<Rightarrow>
        2 * radius * arcsin (sqrt (spec_hav (radians lat2 - radians lat1)
             + cos (radians lat1) * cos (radians lat2) * spec_hav (radians lon2 - radians lon1))))"

definition spec_implied_speed :: "real \<times> real \<times> int \<Rightarrow> sample \<Rightarrow> real" where
  "spec_implied_speed ref p =
     (case ref of (lat0, lon0, epoch0) \<Rightarrow>
        if Epoch p = epoch0 then 0
        else spec_haversine_distance 6378100 (lat0, lon0) (Lat_Float p, Lon_Float p)
               / real_of_int \<bar>Epoch p - epoch0\<bar>)"

definition spec_median :: "'a::linorder list \<Rightarrow> 'a" where
  "spec_median xs = sort xs ! (length xs div 2)"

text \<open>The spherical centroid of points given in degrees: each point as a unit vector,
  the components averaged, the mean vector turned back into latitude and longitude. The
  arithmetic mean of a list. The merge of a group of samples: the first member with the
  centroid as position, the mean speed and bearing, and the far-enough flag \<open>Y\<close> when
  some member has it. The timestamps of a track in order of first appearance, and the
  samples of a track that carry a given timestamp.\<close>

definition spec_unit_vector :: "real \<times> real \<Rightarrow> real \<times> real \<times> real" where
  "spec_unit_vector p =
     (case p of (lat, lon) \<Rightarrow>
        (cos (radians lat) * cos (radians lon), cos (radians lat) * sin (radians lon),
         sin (radians lat)))"

definition spec_spherical_centroid :: "(real \<times> real) list \<Rightarrow> real \<times> real" where
  "spec_spherical_centroid pts =
     (let n = real (length pts);
          X = (\<Sum>p\<leftarrow>pts. fst (spec_unit_vector p)) / n;
          Y = (\<Sum>p\<leftarrow>pts. fst (snd (spec_unit_vector p))) / n;
          Z = (\<Sum>p\<leftarrow>pts. snd (snd (spec_unit_vector p))) / n
      in (degrees (atan2 Z (sqrt (X\<^sup>2 + Y\<^sup>2))), degrees (atan2 Y X)))"

definition spec_mean :: "real list \<Rightarrow> real" where
  "spec_mean xs = sum_list xs / real (length xs)"

definition spec_merge_group :: "sample list \<Rightarrow> sample" where
  "spec_merge_group g =
     (let c = spec_spherical_centroid (map (\<lambda>p. (Lat_Float p, Lon_Float p)) g)
      in (hd g)\<lparr>Lat_Float := fst c, Lon_Float := snd c,
                Speed := spec_mean (map Speed g),
                Bearing := spec_mean (map Bearing g),
                FrameIsFarEnough :=
                  (if \<exists>p \<in> set g. FrameIsFarEnough p = ''Y'' then ''Y'' else ''N'')\<rparr>)"

definition spec_first_keys :: "sample list \<Rightarrow> string list" where
  "spec_first_keys gps_data = rev (remdups (rev (map DT gps_data)))"

definition spec_group :: "sample list \<Rightarrow> string \<Rightarrow> sample list" where
  "spec_group gps_data k = filter (\<lambda>p. DT p = k) gps_data"

declare get_gps_offset_loop.simps [simp del]
declare gps_entries_loop.simps [simp del]
declare parse_ts_loop.simps [simp del]

section \<open>Properties\<close>

subsection \<open>Helper facts\<close>

lemma py_fmod_range: "0 < m \<Longrightarrow> 0 \<le> py_fmod x m \<and> py_fmod x m < m"
proof -
  assume m: "0 < m"
  have lo: "of_int \<lfloor>x / m\<rfloor> \<le> x / m" by simp
  have hi: "x / m < of_int \<lfloor>x / m\<rfloor> + 1" by linarith
  from lo m have "of_int \<lfloor>x / m\<rfloor> * m \<le> x"
    by (simp only: pos_le_divide_eq)
  moreover from hi m have "x < (of_int \<lfloor>x / m\<rfloor> + 1) * m"
    by (simp only: pos_divide_less_eq)
  ultimately show ?thesis
    by (simp add: py_fmod_def algebra_simps)
qed

lemma py_fmod_degrees_minutes:
  assumes "0 \<le> M" "M < 100"
  shows "py_fmod (real D * 100 + M) 100 = M"
proof -
  have "\<lfloor>(real D * 100 + M) / 100\<rfloor> = int D"
  proof (rule floor_unique)
    show "of_int (int D) \<le> (real D * 100 + M) / 100" using assms by simp
    show "(real D * 100 + M) / 100 < of_int (int D) + 1" using assms by simp
  qed
  then show ?thesis by (simp add: py_fmod_def)
qed

lemma fix_coordinates_value:
  assumes "0 \<le> M" "M < 60"
  shows "fix_coordinates h (real D * 100 + M) False =
           (if h = CHR ''S'' \<or> h = CHR ''W'' then - (real D + M / 60) else real D + M / 60)"
proof -
  have "py_fmod (real D * 100 + M) 100 = M"
    using assms by (intro py_fmod_degrees_minutes) simp_all
  then show ?thesis
    by (simp add: fix_coordinates_def Let_def)
qed

subsection \<open>C9: bearing correction\<close>

text \<open>
  C9. For every integer bearing \<open>b\<close> in \<open>[0, 360)\<close> and every integer correction \<open>c\<close>,
  negative ones included, \<open>correct_bearing b c\<close> is the mathematical modulus of \<open>b + c\<close>
  by 360: it lies in \<open>[0, 360)\<close> and differs from \<open>b + c\<close> by a multiple of 360, so it is
  the one residue \<open>(b + c) mod 360\<close>.
\<close>

theorem correct_bearing_is_modulus:
  assumes "0 \<le> b" "b < 360"
  shows "correct_bearing b c = (b + c) mod 360
         \<and> 0 \<le> correct_bearing b c \<and> correct_bearing b c < 360
         \<and> (\<exists>k. b + c = 360 * k + correct_bearing b c)
         \<and> (\<forall>r k. 0 \<le> r \<and> r < 360 \<and> b + c = 360 * k + r \<longrightarrow> r = correct_bearing b c)"
proof -
  have ex: "\<exists>k. b + c = 360 * k + (b + c) mod 360"
  proof
    show "b + c = 360 * ((b + c) div 360) + (b + c) mod 360" by simp
  qed
  have uniq: "r = (b + c) mod 360" if "0 \<le> r \<and> r < 360 \<and> b + c = 360 * k + r" for r k
  proof -
    from that have "(b + c) mod 360 = (360 * k + r) mod 360" by simp
    also have "\<dots> = r mod 360" by simp
    also have "\<dots> = r" using that by simp
    finally show ?thesis by simp
  qed
  from ex uniq show ?thesis
    unfolding correct_bearing_def by auto
qed

theorem correct_bearing_is_modulus_witness:
  "(0::int) \<le> 10 \<and> (10::int) < 360 \<and> correct_bearing 10 (- 30) = 340
   \<and> correct_bearing 10 (- 30) = (10 + - 30) mod 360"
  using correct_bearing_is_modulus [of 10 "- 30"]
  by (simp add: correct_bearing_def)

subsection \<open>C4: coordinate conversion\<close>

text \<open>
  C4, as stated, at the upper end of the degree range: hemisphere \<open>N\<close> and the raw value
  \<open>90 * 100 + 30\<close> have minutes \<open>30\<close> in \<open>[0, 60)\<close> and degrees \<open>90\<close> within \<open>[0, 90]\<close>, and
  the converted value is \<open>90.5\<close>, outside \<open>[-90, 90]\<close>.
\<close>

theorem fix_coordinates_range_counterexample:
  "(0::real) \<le> 30 \<and> (30::real) < 60 \<and> (90::nat) \<le> 90
   \<and> fix_coordinates (CHR ''N'') (real 90 * 100 + 30) False = 90.5
   \<and> \<not> fix_coordinates (CHR ''N'') (real 90 * 100 + 30) False \<le> 90"
proof -
  have "fix_coordinates (CHR ''N'') (real 90 * 100 + 30) False = real 90 + 30 / 60"
    by (subst fix_coordinates_value) simp_all
  then show ?thesis by simp
qed

text \<open>
  C4, amended. For a hemisphere letter \<open>h\<close> among \<open>N\<close>, \<open>S\<close>, \<open>E\<close>, \<open>W\<close> and a raw value
  \<open>D * 100 + M\<close> with whole degrees \<open>D\<close> and minutes \<open>0 \<le> M < 60\<close>, the conversion without
  deobfuscation recovers minutes \<open>raw mod 100 = M\<close> and degrees \<open>raw - raw mod 100 = D * 100\<close>,
  returns \<open>degrees / 100 + minutes / 60 = D + M / 60\<close>, negated exactly for \<open>S\<close> and \<open>W\<close>, so the
  result is at most 0 for \<open>S\<close>, \<open>W\<close> and at least 0 for \<open>N\<close>, \<open>E\<close>; and when the encoded angle
  stays within the hemisphere's degree range (\<open>D < 90\<close>, or \<open>D = 90\<close> with \<open>M = 0\<close>, for a
  latitude; 180 likewise for a longitude) the result lies in \<open>[-90, 90]\<close>, respectively
  \<open>[-180, 180]\<close>.
\<close>

theorem fix_coordinates_valid_pair:
  assumes h: "h \<in> {CHR ''N'', CHR ''S'', CHR ''E'', CHR ''W''}"
    and M: "0 \<le> M" "M < 60"
    and raw: "raw = real D * 100 + M"
  shows "py_fmod raw 100 = M \<and> raw - py_fmod raw 100 = real D * 100
    \<and> fix_coordinates h raw False =
        (if h \<in> {CHR ''S'', CHR ''W''}
         then - ((raw - py_fmod raw 100) / 100 + py_fmod raw 100 / 60)
         else (raw - py_fmod raw 100) / 100 + py_fmod raw 100 / 60)
    \<and> \<bar>fix_coordinates h raw False\<bar> = real D + M / 60
    \<and> (h \<in> {CHR ''S'', CHR ''W''} \<longrightarrow> fix_coordinates h raw False \<le> 0)
    \<and> (h \<in> {CHR ''N'', CHR ''E''} \<longrightarrow> 0 \<le> fix_coordinates h raw False)
    \<and> (h \<in> {CHR ''N'', CHR ''S''} \<and> (D < 90 \<or> D = 90 \<and> M = 0) \<longrightarrow>
         - 90 \<le> fix_coordinates h raw False \<and> fix_coordinates h raw False \<le> 90)
    \<and> (h \<in> {CHR ''E'', CHR ''W''} \<and> (D < 180 \<or> D = 180 \<and> M = 0) \<longrightarrow>
         - 180 \<le> fix_coordinates h raw False \<and> fix_coordinates h raw False \<le> 180)"
proof -
  have fm: "py_fmod raw 100 = M"
    unfolding raw using M by (intro py_fmod_degrees_minutes) simp_all
  have val: "fix_coordinates h raw False =
      (if h = CHR ''S'' \<or> h = CHR ''W'' then - (real D + M / 60) else real D + M / 60)"
    unfolding raw using M by (rule fix_coordinates_value)
  have nonneg: "0 \<le> real D + M / 60" using M by simp
  have lat: "real D + M / 60 \<le> 90" if "D < 90 \<or> D = 90 \<and> M = 0"
  proof -
    from that show ?thesis
    proof
      assume "D < 90"
      then have "real D \<le> 89" by simp
      moreover have "M / 60 < 1" using M by simp
      ultimately show ?thesis by linarith
    next
      assume "D = 90 \<and> M = 0"
      then show ?thesis by simp
    qed
  qed
  have lon: "real D + M / 60 \<le> 180" if "D < 180 \<or> D = 180 \<and> M = 0"
  proof -
    from that show ?thesis
    proof
      assume "D < 180"
      then have "real D \<le> 179" by simp
      moreover have "M / 60 < 1" using M by simp
      ultimately show ?thesis by linarith
    next
      assume "D = 180 \<and> M = 0"
      then show ?thesis by simp
    qed
  qed
  have c1: "py_fmod raw 100 = M" by (rule fm)
  have c2: "raw - py_fmod raw 100 = real D * 100" unfolding fm by (simp add: raw)
  have c3: "fix_coordinates h raw False =
        (if h \<in> {CHR ''S'', CHR ''W''}
         then - ((raw - py_fmod raw 100) / 100 + py_fmod raw 100 / 60)
         else (raw - py_fmod raw 100) / 100 + py_fmod raw 100 / 60)"
    by (simp add: val fm) (simp add: raw)
  have c4: "\<bar>fix_coordinates h raw False\<bar> = real D + M / 60"
    using nonneg by (simp add: val)
  have c5: "h \<in> {CHR ''S'', CHR ''W''} \<longrightarrow> fix_coordinates h raw False \<le> 0"
    using nonneg by (auto simp: val)
  have c6: "h \<in> {CHR ''N'', CHR ''E''} \<longrightarrow> 0 \<le> fix_coordinates h raw False"
    using nonneg by (auto simp: val)
  have c7: "h \<in> {CHR ''N'', CHR ''S''} \<and> (D < 90 \<or> D = 90 \<and> M = 0) \<longrightarrow>
         - 90 \<le> fix_coordinates h raw False \<and> fix_coordinates h raw False \<le> 90"
    using nonneg lat by (auto simp: val)
  have c8: "h \<in> {CHR ''E'', CHR ''W''} \<and> (D < 180 \<or> D = 180 \<and> M = 0) \<longrightarrow>
         - 180 \<le> fix_coordinates h raw False \<and> fix_coordinates h raw False \<le> 180"
    using nonneg lon by (auto simp: val)
  from c1 c2 c3 c4 c5 c6 c7 c8 show ?thesis by blast
qed

theorem fix_coordinates_valid_pair_witness:
  "CHR ''S'' \<in> {CHR ''N'', CHR ''S'', CHR ''E'', CHR ''W''}
   \<and> (0::real) \<le> 30 \<and> (30::real) < 60 \<and> (5230::real) = real 52 * 100 + 30
   \<and> py_fmod 5230 100 = 30
   \<and> fix_coordinates (CHR ''S'') 5230 False = - 52.5
   \<and> - 90 \<le> fix_coordinates (CHR ''S'') 5230 False
   \<and> fix_coordinates (CHR ''S'') 5230 False \<le> 0"
proof -
  have h: "CHR ''S'' \<in> {CHR ''N'', CHR ''S'', CHR ''E'', CHR ''W''}" by simp
  have m0: "(0::real) \<le> 30" and m1: "(30::real) < 60" by simp_all
  have r: "(5230::real) = real 52 * 100 + 30" by simp
  note t = fix_coordinates_valid_pair [OF h m0 m1 r]
  from t have a: "py_fmod 5230 100 = 30" by blast
  from t have b: "\<bar>fix_coordinates (CHR ''S'') 5230 False\<bar> = real 52 + 30 / 60" by blast
  from t have c: "fix_coordinates (CHR ''S'') 5230 False \<le> 0" by simp
  from b c have d: "fix_coordinates (CHR ''S'') 5230 False = - 52.5" by simp
  from a d show ?thesis by simp
qed

subsection \<open>Evaluation of the example inputs\<close>

lemmas datetime_defs = datetime_new_def days_in_month_def DAYS_IN_MONTH_def
  is_leap_def ymd2ord_def days_before_year_def days_before_month_def DAYS_BEFORE_MONTH_def

lemmas strftime_defs = strftime_def ord2ymd_def Let_def DAYS_BEFORE_MONTH_def
  DAYS_IN_MONTH_def digits2_def digits4_def char_of_def

lemmas standard_defs = decode_standard_def gps_record_def struct_slice_def ebind_def
  f32_le_def u32_le_def Let_def is_ascii_def byte_char_def char_of_def
  fix_coordinates_def py_fmod_def isFrameFarEnoughFromPrevious_def
  distance_position_if_bearingCorrection_def convert_to_epoch_def fix_speed_def
  correct_bearing_float_def record_sample_def py_sqrt_def atan2_def R_km_def
  minimalDistance_def datetime_sub_def datetime_min_def initial_session_def
  session_at_def

lemma offset_of_record: "get_gps_offset (gps_record h m s) st = Inr (0, st)"
  by (simp add: get_gps_offset_def gps_record_def get_gps_offset_loop.simps
      struct_slice_def is_marker_def)

lemma length_gps_record: "length (gps_record h m s) = 44"
  by (simp add: gps_record_def)

lemma strftime_12_00_09: "strftime 63825883209 = ''2023-07-24T12:00:09Z''"
  by (simp add: strftime_defs)

lemma strftime_12_01_09: "strftime 63825883269 = ''2023-07-24T12:01:09Z''"
  by (simp add: strftime_defs)

lemma strftime_05_00_09: "strftime 63825858009 = ''2023-07-24T05:00:09Z''"
  by (simp add: strftime_defs)

lemma datetime_12_00_10: "datetime_new 2023 7 24 12 0 10 = Inr 63825883210"
  by (simp add: datetime_defs)

lemma datetime_12_01_10: "datetime_new 2023 7 24 12 1 10 = Inr 63825883270"
  by (simp add: datetime_defs)

lemma datetime_05_00_10: "datetime_new 2023 7 24 5 0 10 = Inr 63825858010"
  by (simp add: datetime_defs)

lemma standard_first:
  "decode_standard (gps_record 12 0 10) 0 False 0 False initial_session =
     Inr (Some (record_sample 12 0 10 1690200009 ''2023-07-24T12:00:09Z'' 0 ''Y''),
          (session_at 63825883209 0))"
  by (simp add: standard_defs datetime_12_00_10 strftime_12_00_09)


lemma standard_later_alone:
  "decode_standard (gps_record 12 1 10) 0 False 0 False initial_session =
     Inr (Some (record_sample 12 1 10 1690200069 ''2023-07-24T12:01:09Z'' 0 ''Y''),
          (session_at 63825883269 0))"
  by (simp add: standard_defs datetime_12_01_10 strftime_12_01_09)

lemma standard_later_after_first:
  "decode_standard (gps_record 12 1 10) 0 False 0 False
       (session_at 63825883209 0) =
     Inr (Some (record_sample 12 1 10 1690200069 ''2023-07-24T12:01:09Z'' 60 ''N''),
          (session_at 63825883209 0))"
  by (simp add: standard_defs datetime_12_01_10 strftime_12_01_09)

lemma standard_hour_5:
  "decode_standard (gps_record 5 0 10) 0 False 0 False initial_session =
     Inr (Some (record_sample 5 0 10 1690174809 ''2023-07-24T05:00:09Z'' 0 ''Y''),
          (session_at 63825858009 0))"
  by (simp add: standard_defs datetime_05_00_10 strftime_05_00_09)

lemma azdome_hour_5: "decode_azdome (gps_record 5 0 10) = Inr None"
  by (simp add: decode_azdome_def gps_record_def slice_def py_int_def py_isspace_def
      py_isdigit_def)

lemma get_gps_data_hour_12:
  "get_gps_data (gps_record 12 m s) deob bc dnbd st =
     decode_standard (gps_record 12 m s) 0 deob bc dnbd st"
  by (simp add: get_gps_data_def offset_of_record ebind_def)
     (simp add: gps_record_def struct_slice_def)

lemma get_gps_data_hour_5:
  "get_gps_data (gps_record 5 m s) deob bc dnbd st =
     (case decode_azdome (gps_record 5 m s) of
        Inl e \<Rightarrow> Inl e
      | Inr (Some x) \<Rightarrow> Inr (None, st)
      | Inr None \<Rightarrow> decode_standard (gps_record 5 m s) 0 deob bc dnbd st)"
  by (simp add: get_gps_data_def offset_of_record ebind_def)
     (simp add: gps_record_def struct_slice_def split: sum.splits option.splits)


lemma get_gps_data_one_byte_azdome:
  "get_gps_data [0x05] deob bc dnbd st =
     Inr (None, if videoStartTs st = None
                then st\<lparr>videoStartWrongAtoms := videoStartWrongAtoms st + 1\<rparr> else st)"
  by (simp add: get_gps_data_def get_gps_offset_def get_gps_offset_loop.simps ebind_def
      struct_slice_def decode_azdome_def slice_def py_int_def)

subsection \<open>The scanner on the example file\<close>

lemma atom_moov:
  "length r = 44 \<Longrightarrow> get_atom_info (read_at (mp4_file r) 0 8) = (32, ascii ''moov'')"
  by (simp add: mp4_file_def read_at_def get_atom_info_def u32_be_def is_ascii_def ascii_def)

lemma atom_gps:
  "length r = 44 \<Longrightarrow> get_atom_info (read_at (mp4_file r) 8 8) = (24, ascii ''gps '')"
  by (simp add: mp4_file_def read_at_def get_atom_info_def u32_be_def is_ascii_def ascii_def)

lemma atom_free:
  "length r = 44 \<Longrightarrow> get_atom_info (read_at (mp4_file r) 32 8) = (56, ascii ''free'')"
  by (simp add: mp4_file_def read_at_def get_atom_info_def u32_be_def is_ascii_def ascii_def)

lemma atom_end: "length r = 44 \<Longrightarrow> get_atom_info (read_at (mp4_file r) 88 8) = (0, [])"
  by (simp add: mp4_file_def read_at_def get_atom_info_def)

lemma entry_of_mp4_file:
  "length r = 44 \<Longrightarrow> get_gps_atom_info (read_at (mp4_file r) 24 8) = Inr (32, 56)"
  by (simp add: mp4_file_def read_at_def get_gps_atom_info_def u32_be_def)

lemma get_gps_atom_of_mp4_file:
  "length r = 44 \<Longrightarrow>
   get_gps_atom (32, 56) (mp4_file r) deob bc dnbd st = get_gps_data r deob bc dnbd st"
  by (simp add: get_gps_atom_def mp4_file_def read_at_def struct_slice_def ebind_def
      u32_be_def is_ascii_def ascii_def Let_def)

lemma gps_entries_of_mp4_file:
  assumes "length r = 44"
  shows "gps_entries_loop (mp4_file r) 24 32 deob bc dnbd gps_data st =
     (case get_gps_data r deob bc dnbd st of
        Inl e \<Rightarrow> Inl e
      | Inr (data, st1) \<Rightarrow> Inr (gps_data @ [data], st1))"
  apply (subst gps_entries_loop.simps)
  apply (simp add: entry_of_mp4_file [OF assms] get_gps_atom_of_mp4_file [OF assms]
      split: sum.splits prod.splits)
  apply (subst gps_entries_loop.simps)
  apply simp
  done

lemma sub_atoms_of_mp4_file:
  assumes "length r = 44"
  shows "sub_atoms_loop (mp4_file r) 8 32 deob bc dnbd gps_data st =
     (case get_gps_data r deob bc dnbd st of
        Inl e \<Rightarrow> Some (Inl e)
      | Inr (data, st1) \<Rightarrow> Some (Inr (gps_data @ [data], st1)))"
  apply (subst sub_atoms_loop.simps)
  apply (simp add: atom_gps [OF assms] gps_entries_of_mp4_file [OF assms]
      split: sum.splits prod.splits)
  apply (subst sub_atoms_loop.simps)
  apply simp
  done

lemma parse_moov_of_mp4_file:
  assumes "length r = 44"
  shows "parse_moov (mp4_file r) deob bc dnbd st =
     (case get_gps_data r deob bc dnbd st of
        Inl e \<Rightarrow> Some (Inl e)
      | Inr (data, st1) \<Rightarrow> Some (Inr (([data], True), st1)))"
  unfolding parse_moov_def
  apply (subst parse_moov_loop.simps)
  apply (simp add: atom_moov [OF assms] sub_atoms_of_mp4_file [OF assms]
      split: sum.splits prod.splits)
  apply (subst parse_moov_loop.simps)
  apply (simp add: atom_free [OF assms] ascii_def)
  apply (subst parse_moov_loop.simps)
  apply (simp add: atom_end [OF assms])
  done

lemma process_file_of_mp4_file:
  assumes "length r = 44"
    and "get_gps_data r deob bc dnbd st = Inr (Some smp, st1)"
  shows "process_file (mp4_file r) deob False False bc dnbd st = Some (Inr ([smp], st1))"
  by (simp add: process_file_def parse_moov_of_mp4_file [OF assms(1)] assms(2) ebind_def
      filter_None_def List.map_filter_def)

subsection \<open>The marker search\<close>

lemma take3_drop:
  assumes "p + 3 \<le> length data"
  shows "take 3 (drop p data) = [data ! p, data ! (p + 1), data ! (p + 2)]"
proof -
  have a: "drop p data = data ! p # drop (Suc p) data"
    using assms by (simp add: Cons_nth_drop_Suc)
  have b: "drop (Suc p) data = data ! Suc p # drop (Suc (Suc p)) data"
    using assms by (simp add: Cons_nth_drop_Suc)
  have c: "drop (Suc (Suc p)) data = data ! Suc (Suc p) # drop (Suc (Suc (Suc p))) data"
    using assms by (simp add: Cons_nth_drop_Suc)
  show ?thesis
    by (simp add: a b c numeral_3_eq_3)
qed

lemma slice_marker:
  assumes "0 < pointer" "pointer \<le> int (length data) - 20"
  shows "struct_slice data pointer 3 = Inr (take 3 (drop (nat pointer) data))"
    and "is_marker (take 3 (drop (nat pointer) data)) = spec_marker_at data (nat pointer)"
proof -
  show "struct_slice data pointer 3 = Inr (take 3 (drop (nat pointer) data))"
    using assms by (simp add: struct_slice_def)
  have "nat pointer + 3 \<le> length data" using assms by linarith
  then show "is_marker (take 3 (drop (nat pointer) data)) = spec_marker_at data (nat pointer)"
    by (simp add: take3_drop is_marker_def spec_marker_at_def)
qed

lemma offset_loop_none:
  "pointer \<le> int (length data) - 20 \<Longrightarrow>
   (\<forall>q. 0 < q \<and> q \<le> pointer \<longrightarrow> \<not> spec_marker_at data (nat q)) \<Longrightarrow>
   get_gps_offset_loop data pointer = Inr None"
proof (induction data pointer rule: get_gps_offset_loop.induct)
  case (1 data pointer)
  show ?case
  proof (cases "pointer > 0")
    case False
    then show ?thesis by (subst get_gps_offset_loop.simps) simp
  next
    case True
    note sm = slice_marker [OF True "1.prems"(1)]
    have nm: "\<not> spec_marker_at data (nat pointer)" using True "1.prems"(2) by simp
    have "get_gps_offset_loop data (pointer - 1) = Inr None"
    proof (rule "1.IH" [OF True sm(1)])
      show "\<not> is_marker (take 3 (drop (nat pointer) data))" using sm(2) nm by simp
      show "pointer - 1 \<le> int (length data) - 20" using "1.prems"(1) by simp
      show "\<forall>q. 0 < q \<and> q \<le> pointer - 1 \<longrightarrow> \<not> spec_marker_at data (nat q)"
        using "1.prems"(2) by simp
    qed
    then show ?thesis
      using True sm nm by (subst get_gps_offset_loop.simps) simp
  qed
qed

lemma offset_loop_some:
  "pointer \<le> int (length data) - 20 \<Longrightarrow> 0 < P \<Longrightarrow> P \<le> pointer \<Longrightarrow>
   spec_marker_at data (nat P) \<Longrightarrow>
   (\<forall>q. P < q \<and> q \<le> pointer \<longrightarrow> \<not> spec_marker_at data (nat q)) \<Longrightarrow>
   get_gps_offset_loop data pointer = Inr (Some (P - 24))"
proof (induction data pointer rule: get_gps_offset_loop.induct)
  case (1 data pointer)
  have pos: "pointer > 0" using "1.prems" by simp
  note sm = slice_marker [OF pos "1.prems"(1)]
  show ?case
  proof (cases "P = pointer")
    case True
    then show ?thesis
      using pos sm "1.prems"(4) by (subst get_gps_offset_loop.simps) simp
  next
    case False
    then have lt: "P < pointer" using "1.prems"(3) by simp
    then have nm: "\<not> spec_marker_at data (nat pointer)" using "1.prems"(5) by simp
    have "get_gps_offset_loop data (pointer - 1) = Inr (Some (P - 24))"
    proof (rule "1.IH" [OF pos sm(1)])
      show "\<not> is_marker (take 3 (drop (nat pointer) data))" using sm(2) nm by simp
      show "pointer - 1 \<le> int (length data) - 20" using "1.prems"(1) by simp
      show "0 < P" by (rule "1.prems"(2))
      show "P \<le> pointer - 1" using lt by simp
      show "spec_marker_at data (nat P)" by (rule "1.prems"(4))
      show "\<forall>q. P < q \<and> q \<le> pointer - 1 \<longrightarrow> \<not> spec_marker_at data (nat q)"
        using "1.prems"(5) by simp
    qed
    then show ?thesis
      using pos sm nm by (subst get_gps_offset_loop.simps) simp
  qed
qed

lemma get_gps_data_no_offset:
  assumes "data \<noteq> []" "hd data \<notin> {0x05, 0xF0}"
    and "get_gps_offset data st = Inr (- 1, st1)"
  shows "get_gps_data data deob bc dnbd st = Inr (None, st1)"
proof -
  obtain b bs where d: "data = b # bs" using assms(1) by (cases data) auto
  have "struct_slice data 0 1 = Inr [b]" by (simp add: d struct_slice_def)
  moreover have "[b] \<notin> set [[0x05], [0xF0]]" using assms(2) d by simp
  ultimately show ?thesis
    using assms(3) by (simp add: get_gps_data_def ebind_def)
qed

lemma offset_loop_total:
  "pointer \<le> int (length data) - 20 \<Longrightarrow> \<exists>r. get_gps_offset_loop data pointer = Inr r"
proof (induction data pointer rule: get_gps_offset_loop.induct)
  case (1 data pointer)
  show ?case
  proof (cases "pointer > 0")
    case False
    then show ?thesis by (subst get_gps_offset_loop.simps) simp
  next
    case True
    note sm = slice_marker [OF True "1.prems"]
    show ?thesis
    proof (cases "is_marker (take 3 (drop (nat pointer) data))")
      case True
      then show ?thesis using \<open>pointer > 0\<close> sm by (subst get_gps_offset_loop.simps) simp
    next
      case False
      have "\<exists>r. get_gps_offset_loop data (pointer - 1) = Inr r"
        using "1.IH" [OF True sm(1) False] "1.prems" by simp
      then show ?thesis using True sm False by (subst get_gps_offset_loop.simps) simp
    qed
  qed
qed

subsection \<open>The backward marker search on a region with a leading byte\<close>

text \<open>
  For every region that has a leading byte, neither \<open>0x05\<close> nor \<open>0xF0\<close>, the search runs
  from position \<open>length - 20\<close> down to position 1. If \<open>p\<close> is the highest position in that
  range where the pattern \<open>A\<close>, \<open>N\<close> or \<open>S\<close>, \<open>E\<close> or \<open>W\<close> stands, \<open>get_gps_offset\<close> returns
  \<open>p - 24\<close> and leaves the session as it is. If the pattern stands nowhere in the range,
  \<open>get_gps_offset\<close> returns \<open>-1\<close>, \<open>get_gps_data\<close> returns no sample and raises nothing, and
  the counter of bad regions goes up by one exactly when the video start timestamp is still
  unset. In every case the search itself returns.
\<close>

lemma marker_search_backward:
  assumes "data \<noteq> []" and "hd data \<notin> {0x05, 0xF0}"
  shows "(\<forall>p. 0 < p \<and> int p \<le> int (length data) - 20 \<and> spec_marker_at data p
               \<and> (\<forall>q. p < q \<and> int q \<le> int (length data) - 20 \<longrightarrow> \<not> spec_marker_at data q)
              \<longrightarrow> get_gps_offset data st = Inr (int p - 24, st))
       \<and> ((\<forall>p. 0 < p \<and> int p \<le> int (length data) - 20 \<longrightarrow> \<not> spec_marker_at data p)
              \<longrightarrow> (\<exists>st1. get_gps_offset data st = Inr (- 1, st1)
                     \<and> get_gps_data data deobfuscate bearingCorrection doNotBearingDistance st
                         = Inr (None, st1)
                     \<and> st1 = (if videoStartTs st = None
                              then st\<lparr>videoStartWrongAtoms := videoStartWrongAtoms st + 1\<rparr>
                              else st)
                     \<and> (videoStartWrongAtoms st1 = videoStartWrongAtoms st + 1
                          \<longleftrightarrow> videoStartTs st = None)))
       \<and> (\<exists>r. get_gps_offset data st = Inr r)"
proof (intro conjI allI impI)
  fix p
  assume h: "0 < p \<and> int p \<le> int (length data) - 20 \<and> spec_marker_at data p
             \<and> (\<forall>q. p < q \<and> int q \<le> int (length data) - 20 \<longrightarrow> \<not> spec_marker_at data q)"
  have no_higher: "\<forall>q. int p < q \<and> q \<le> int (length data) - 20 \<longrightarrow> \<not> spec_marker_at data (nat q)"
  proof (intro allI impI)
    fix q :: int
    assume q: "int p < q \<and> q \<le> int (length data) - 20"
    then have "p < nat q \<and> int (nat q) \<le> int (length data) - 20" by linarith
    with h show "\<not> spec_marker_at data (nat q)" by blast
  qed
  have "get_gps_offset_loop data (int (length data) - 20) = Inr (Some (int p - 24))"
    using h no_higher by (intro offset_loop_some) simp_all
  then show "get_gps_offset data st = Inr (int p - 24, st)"
    by (simp add: get_gps_offset_def)
next
  assume h: "\<forall>p. 0 < p \<and> int p \<le> int (length data) - 20 \<longrightarrow> \<not> spec_marker_at data p"
  have "\<forall>q. 0 < q \<and> q \<le> int (length data) - 20 \<longrightarrow> \<not> spec_marker_at data (nat q)"
  proof (intro allI impI)
    fix q :: int
    assume "0 < q \<and> q \<le> int (length data) - 20"
    then have "0 < nat q \<and> int (nat q) \<le> int (length data) - 20" by linarith
    with h show "\<not> spec_marker_at data (nat q)" by blast
  qed
  then have "get_gps_offset_loop data (int (length data) - 20) = Inr None"
    by (intro offset_loop_none) simp_all
  then have off: "get_gps_offset data st =
      Inr (- 1, if videoStartTs st = None
                then st\<lparr>videoStartWrongAtoms := videoStartWrongAtoms st + 1\<rparr> else st)"
    by (simp add: get_gps_offset_def)
  show "\<exists>st1. get_gps_offset data st = Inr (- 1, st1)
          \<and> get_gps_data data deobfuscate bearingCorrection doNotBearingDistance st
              = Inr (None, st1)
          \<and> st1 = (if videoStartTs st = None
                   then st\<lparr>videoStartWrongAtoms := videoStartWrongAtoms st + 1\<rparr>
                   else st)
          \<and> (videoStartWrongAtoms st1 = videoStartWrongAtoms st + 1
               \<longleftrightarrow> videoStartTs st = None)"
    using off get_gps_data_no_offset [OF assms off] by simp
next
  obtain r where "get_gps_offset_loop data (int (length data) - 20) = Inr r"
    using offset_loop_total [of "int (length data) - 20" data] by auto
  then show "\<exists>r. get_gps_offset data st = Inr r"
    by (cases r) (simp_all add: get_gps_offset_def)
qed

lemma marker_search_backward_example:
  "gps_record 12 0 10 \<noteq> [] \<and> hd (gps_record 12 0 10) \<notin> {0x05, 0xF0}
   \<and> spec_marker_at (gps_record 12 0 10) 24
   \<and> int 24 \<le> int (length (gps_record 12 0 10)) - 20
   \<and> get_gps_offset (gps_record 12 0 10) initial_session = Inr (int 24 - 24, initial_session)
   \<and> get_gps_data [0] False 0 False initial_session
       = Inr (None, initial_session\<lparr>videoStartWrongAtoms := 1\<rparr>)"
proof -
  have a: "gps_record 12 0 10 \<noteq> []" and b: "hd (gps_record 12 0 10) \<notin> {0x05, 0xF0}"
    by (simp_all add: gps_record_def)
  have m: "spec_marker_at (gps_record 12 0 10) 24"
    by (simp add: spec_marker_at_def gps_record_def)
  have len: "int 24 \<le> int (length (gps_record 12 0 10)) - 20"
    by (simp add: length_gps_record)
  have top: "\<forall>q. 24 < q \<and> int q \<le> int (length (gps_record 12 0 10)) - 20
               \<longrightarrow> \<not> spec_marker_at (gps_record 12 0 10) q"
    by (auto simp: length_gps_record)
  have hyp: "0 < (24::nat) \<and> int 24 \<le> int (length (gps_record 12 0 10)) - 20
      \<and> spec_marker_at (gps_record 12 0 10) 24
      \<and> (\<forall>q. 24 < q \<and> int q \<le> int (length (gps_record 12 0 10)) - 20
               \<longrightarrow> \<not> spec_marker_at (gps_record 12 0 10) q)"
    using m len top by (intro conjI) simp_all
  note t1 = marker_search_backward [OF a b, of initial_session False 0 False]
  have found: "get_gps_offset (gps_record 12 0 10) initial_session
                 = Inr (int 24 - 24, initial_session)"
    by (rule t1 [THEN conjunct1, THEN spec, THEN mp, OF hyp])
  have c: "[0::byte] \<noteq> []" and d: "hd [0::byte] \<notin> {0x05, 0xF0}" by simp_all
  have none: "\<forall>p. 0 < p \<and> int p \<le> int (length [0::byte]) - 20 \<longrightarrow> \<not> spec_marker_at [0] p"
    by simp
  note t2 = marker_search_backward [OF c d, of initial_session False 0 False]
  from t2 [THEN conjunct2, THEN conjunct1, THEN mp, OF none]
  obtain st1 where "get_gps_data [0] False 0 False initial_session = Inr (None, st1)"
    and "st1 = (if videoStartTs initial_session = None
                then initial_session\<lparr>videoStartWrongAtoms :=
                       videoStartWrongAtoms initial_session + 1\<rparr>
                else initial_session)"
    by blast
  then have skipped: "get_gps_data [0] False 0 False initial_session
       = Inr (None, initial_session\<lparr>videoStartWrongAtoms := 1\<rparr>)"
    by (simp add: initial_session_def)
  from a b m len found skipped show ?thesis by (intro conjI)
qed


subsection \<open>C2: the region without a leading byte\<close>

lemma get_gps_offset_empty:
  "get_gps_offset [] st =
     Inr (- 1, if videoStartTs st = None
               then st\<lparr>videoStartWrongAtoms := videoStartWrongAtoms st + 1\<rparr> else st)"
  by (simp add: get_gps_offset_def get_gps_offset_loop.simps)

lemma get_gps_data_empty: "get_gps_data [] deob bc dnbd st = Inl StructError"
  by (simp add: get_gps_data_def get_gps_offset_empty ebind_def struct_slice_def)

lemma empty_payload_entry:
  "get_gps_atom_info (read_at mp4_file_empty_payload 24 8) = Inr (32, 12)"
  by (simp add: mp4_file_empty_payload_def read_at_def get_gps_atom_info_def u32_be_def)

lemma empty_payload_atom:
  "read_at mp4_file_empty_payload 32 12 = [0, 0, 0, 12] @ ascii ''free'' @ ascii ''GPS ''"
  by (simp add: mp4_file_empty_payload_def read_at_def ascii_def)

lemma get_gps_atom_empty_payload:
  "get_gps_atom (32, 12) mp4_file_empty_payload deob bc dnbd st = Inl StructError"
  by (simp add: get_gps_atom_def mp4_file_empty_payload_def read_at_def struct_slice_def
      ebind_def u32_be_def is_ascii_def ascii_def Let_def get_gps_data_empty)

lemma parse_moov_empty_payload:
  "parse_moov mp4_file_empty_payload deob bc dnbd st = Some (Inl StructError)"
  unfolding parse_moov_def
  apply (subst parse_moov_loop.simps)
  apply (simp add: mp4_file_empty_payload_def read_at_def get_atom_info_def u32_be_def
      is_ascii_def ascii_def)
  apply (subst sub_atoms_loop.simps)
  apply (simp add: read_at_def get_atom_info_def u32_be_def is_ascii_def ascii_def)
  apply (subst gps_entries_loop.simps)
  apply (simp add: read_at_def get_gps_atom_info_def u32_be_def)
  apply (simp add: get_gps_atom_empty_payload [unfolded mp4_file_empty_payload_def, simplified])
  done

text \<open>
  C2 fails on the script for the empty region, which has no leading byte and so is not of
  the obfuscated variant. The marker search finds nothing on it and counts a bad region;
  then \<^verbatim>\<open>struct.unpack_from ('>c', data)\<close> raises \<^verbatim>\<open>struct.error\<close>, which nothing
  catches: the region is not skipped as no sample, the failure ends the scan. The region
  arises from a \<^verbatim>\<open>free\<close> atom of 12 bytes that passes every check of \<open>get_gps_atom\<close>,
  as in the example file, whose scan ends with that error.
\<close>

theorem empty_region_raises:
  "get_gps_offset [] initial_session
     = Inr (- 1, initial_session\<lparr>videoStartWrongAtoms := 1\<rparr>)
   \<and> get_gps_data [] False 0 False initial_session = Inl StructError
   \<and> get_gps_atom_info (read_at mp4_file_empty_payload 24 8) = Inr (32, 12)
   \<and> read_at mp4_file_empty_payload 32 12 = [0, 0, 0, 12] @ ascii ''free'' @ ascii ''GPS ''
   \<and> drop 12 (read_at mp4_file_empty_payload 32 12) = []
   \<and> get_gps_atom (32, 12) mp4_file_empty_payload False 0 False initial_session
     = Inl StructError
   \<and> parse_moov mp4_file_empty_payload False 0 False initial_session
     = Some (Inl StructError)"
proof -
  have a: "get_gps_offset [] initial_session
     = Inr (- 1, initial_session\<lparr>videoStartWrongAtoms := 1\<rparr>)"
    by (simp add: get_gps_offset_empty) (simp add: initial_session_def)
  have b: "drop 12 (read_at mp4_file_empty_payload 32 12) = []"
    by (simp add: empty_payload_atom ascii_def)
  show ?thesis
    by (intro conjI) (rule a, rule get_gps_data_empty, rule empty_payload_entry,
      rule empty_payload_atom, rule b, rule get_gps_atom_empty_payload,
      rule parse_moov_empty_payload)
qed

theorem empty_region_raises_witness:
  "\<exists>e st. get_gps_offset [] initial_session = Inr (- 1, st)
     \<and> videoStartWrongAtoms st = 1
     \<and> get_gps_data [] False 0 False initial_session = Inl e
     \<and> parse_moov mp4_file_empty_payload False 0 False initial_session = Some (Inl e)"
proof -
  note t = empty_region_raises
  note a = t [THEN conjunct1]
  note b = t [THEN conjunct2, THEN conjunct1]
  note c = t [THEN conjunct2, THEN conjunct2, THEN conjunct2, THEN conjunct2,
              THEN conjunct2, THEN conjunct2]
  have n: "videoStartWrongAtoms (initial_session\<lparr>videoStartWrongAtoms := 1\<rparr>) = 1"
    by simp
  show ?thesis
    by (intro exI conjI) (rule a, rule n, rule b, rule c)
qed

subsection \<open>What a decoded standard sample carries\<close>





subsection \<open>The haversine stays in its domain\<close>

lemma hav_cos: "(1 - cos x) / 2 = spec_hav x"
proof -
  have "cos (2 * (x / 2)) = 1 - 2 * (sin (x / 2))\<^sup>2" by (rule cos_double_sin)
  then show ?thesis by (simp add: spec_hav_def)
qed

lemma half_one_minus_cos: "0 \<le> (1 - cos (l::real)) / 2 \<and> (1 - cos l) / 2 \<le> 1"
proof -
  have a: "cos l \<le> 1" by (rule cos_le_one)
  have b: "- 1 \<le> cos l" by (rule cos_ge_minus_one)
  from a have "0 \<le> 1 - cos l" by linarith
  moreover from b have "1 - cos l \<le> 2" by linarith
  ultimately show ?thesis by simp
qed

lemma half_one_plus_cos: "0 \<le> (1 + cos (l::real)) / 2 \<and> (1 + cos l) / 2 \<le> 1"
proof -
  have a: "cos l \<le> 1" by (rule cos_le_one)
  have b: "- 1 \<le> cos l" by (rule cos_ge_minus_one)
  from b have "0 \<le> 1 + cos l" by linarith
  moreover from a have "1 + cos l \<le> 2" by linarith
  ultimately show ?thesis by simp
qed

lemma hav_h_range:
  fixes a b l :: real
  defines "h \<equiv> (1 - cos (b - a)) / 2 + cos a * cos b * ((1 - cos l) / 2)"
  shows "0 \<le> h \<and> h \<le> 1"
proof -
  define s where "s = (1 - cos l) / 2"
  define u where "u = (1 - cos (b - a)) / 2"
  define v where "v = (1 + cos (a + b)) / 2"
  have s: "0 \<le> s" "s \<le> 1"
    using half_one_minus_cos [of l] by (simp_all add: s_def)
  have u: "0 \<le> u" "u \<le> 1"
    using half_one_minus_cos [of "b - a"] by (simp_all add: u_def)
  have v: "0 \<le> v" "v \<le> 1"
    using half_one_plus_cos [of "a + b"] by (simp_all add: v_def)
  have eq: "h = (1 - s) * u + s * v"
    unfolding h_def u_def v_def s_def cos_diff cos_add
    by (simp add: field_simps)
  have "0 \<le> (1 - s) * u" using s u by (intro mult_nonneg_nonneg) simp_all
  moreover have "0 \<le> s * v" using s v by (intro mult_nonneg_nonneg) simp_all
  moreover have "(1 - s) * u \<le> (1 - s) * 1" using s u by (intro mult_left_mono) simp_all
  moreover have "s * v \<le> s * 1" using s v by (intro mult_left_mono) simp_all
  ultimately show ?thesis unfolding eq by simp
qed

lemma calculate_speed_total:
  "calculate_speed (lat0, lon0, epoch0) (Lat_Float p, Lon_Float p, Epoch p)
     = Inr (spec_implied_speed (lat0, lon0, epoch0) p)"
proof -
  define h where "h = (1 - cos (radians (Lat_Float p) - radians lat0)) / 2
      + cos (radians lat0) * cos (radians (Lat_Float p))
        * ((1 - cos (radians (Lon_Float p) - radians lon0)) / 2)"
  have r: "0 \<le> h \<and> h \<le> 1" unfolding h_def by (rule hav_h_range)
  then have sq: "0 \<le> sqrt h \<and> sqrt h \<le> 1" by (simp add: real_sqrt_le_1_iff)
  have "\<not> (sqrt h < - 1 \<or> 1 < sqrt h)" using sq by linarith
  then have asin: "py_asin (sqrt h) = Inr (arcsin (sqrt h))"
    by (simp only: py_asin_def if_False)
  have h2: "h = spec_hav (radians (Lat_Float p) - radians lat0)
      + cos (radians lat0) * cos (radians (Lat_Float p))
        * spec_hav (radians (Lon_Float p) - radians lon0)"
    unfolding h_def by (simp only: hav_cos)
  have ne: "\<not> h < 0" using r by simp
  have cs: "calculate_speed (lat0, lon0, epoch0) (Lat_Float p, Lon_Float p, Epoch p) =
      (if h < 0 then Inl TypeError
       else ebind (py_asin (sqrt h)) (\<lambda>asin_h.
              let distance = 2 * 6378100 * asin_h
              in if \<bar>Epoch p - epoch0\<bar> = 0 then Inr 0
                 else Inr (distance / real_of_int \<bar>Epoch p - epoch0\<bar>)))"
    unfolding calculate_speed_def h_def by (simp only: Let_def prod.case)
  have sp: "spec_implied_speed (lat0, lon0, epoch0) p =
      (if Epoch p = epoch0 then 0
       else 2 * 6378100 * arcsin (sqrt h) / real_of_int \<bar>Epoch p - epoch0\<bar>)"
    unfolding spec_implied_speed_def spec_haversine_distance_def h2
    by (simp only: prod.case)
  show ?thesis
    unfolding cs sp using ne asin by (simp add: ebind_def)
qed

lemma remove_outliers_loop_filter:
  "remove_outliers_loop (lat0, lon0, epoch0) ps acc =
     Inr (acc @ filter (\<lambda>p. \<not> spec_implied_speed (lat0, lon0, epoch0) p > 1000) ps)"
  by (induction ps arbitrary: acc) (simp_all add: calculate_speed_total)

subsection \<open>Grouping by timestamp\<close>

lemma center_is_centroid:
  assumes "vs \<noteq> []"
  shows "GetCenterFromDegrees (map Lat_Float vs) (map Lon_Float vs) =
           Inr (spec_spherical_centroid (map (\<lambda>p. (Lat_Float p, Lon_Float p)) vs))"
proof -
  have z: "zip (map Lat_Float vs) (map Lon_Float vs) = map (\<lambda>p. (Lat_Float p, Lon_Float p)) vs"
    by (induction vs) simp_all
  show ?thesis
    using assms
    by (simp add: GetCenterFromDegrees_def z spec_spherical_centroid_def Let_def
        spec_unit_vector_def radians_def degrees_def power2_eq_square comp_def)
qed

lemma merge_values_is_group:
  assumes "vs \<noteq> []"
  shows "merge_values vs = Inr (spec_merge_group vs)"
  using assms
  by (simp add: merge_values_def center_is_centroid ebind_def spec_merge_group_def
      Let_def spec_mean_def list_ex_iff split: prod.splits)

lemma dict_append_map:
  assumes "distinct ks"
  shows "dict_append (map (\<lambda>k. (k, f k)) ks) k0 v =
     (if k0 \<in> set ks then map (\<lambda>k. (k, if k = k0 then f k @ [v] else f k)) ks
      else map (\<lambda>k. (k, f k)) ks @ [(k0, [v])])"
  using assms by (induction ks) auto

lemma first_keys_snoc:
  "spec_first_keys (xs @ [x]) =
     (if DT x \<in> set (spec_first_keys xs) then spec_first_keys xs
      else spec_first_keys xs @ [DT x])"
  by (simp add: spec_first_keys_def)

lemma set_first_keys: "set (spec_first_keys xs) = DT ` set xs"
  by (simp add: spec_first_keys_def)

lemma distinct_first_keys: "distinct (spec_first_keys xs)"
  by (simp add: spec_first_keys_def)

lemma gps_data_dict_groups:
  "gps_data_dict xs = map (\<lambda>k. (k, spec_group xs k)) (spec_first_keys xs)"
proof (induction xs rule: rev_induct)
  case Nil
  show ?case by (simp add: gps_data_dict_def spec_first_keys_def)
next
  case (snoc x xs)
  have step: "gps_data_dict (xs @ [x]) = dict_append (gps_data_dict xs) (DT x) x"
    by (simp add: gps_data_dict_def)
  show ?case
  proof (cases "DT x \<in> set (spec_first_keys xs)")
    case True
    have "map (\<lambda>k. (k, if k = DT x then spec_group xs k @ [x] else spec_group xs k))
            (spec_first_keys xs)
          = map (\<lambda>k. (k, spec_group (xs @ [x]) k)) (spec_first_keys xs)"
      by (rule map_cong) (auto simp: spec_group_def)
    then show ?thesis
      using True
      by (simp add: step snoc.IH dict_append_map [OF distinct_first_keys] first_keys_snoc)
  next
    case False
    then have "\<forall>p \<in> set xs. DT p \<noteq> DT x"
      unfolding set_first_keys by (metis imageI)
    then have none: "spec_group xs (DT x) = []"
      by (simp add: spec_group_def filter_empty_conv)
    have "map (\<lambda>k. (k, spec_group xs k)) (spec_first_keys xs)
          = map (\<lambda>k. (k, spec_group (xs @ [x]) k)) (spec_first_keys xs)"
      using False by (intro map_cong) (auto simp: spec_group_def)
    then show ?thesis
      using False none
      by (simp add: step snoc.IH dict_append_map [OF distinct_first_keys] first_keys_snoc
          spec_group_def)
  qed
qed

lemma merge_loop_map:
  assumes "\<forall>vs \<in> set groups. vs \<noteq> []"
  shows "merge_duplicates_loop groups acc =
     Inr (acc @ map (\<lambda>vs. if length vs = 1 then hd vs else spec_merge_group vs) groups)"
  using assms
  by (induction groups arbitrary: acc) (simp_all add: merge_values_is_group)

lemma group_nonempty: "k \<in> set (spec_first_keys xs) \<Longrightarrow> spec_group xs k \<noteq> []"
  by (auto simp: set_first_keys spec_group_def filter_empty_conv)

subsection \<open>Runs over the example files\<close>

lemma run_later_alone:
  "run [mp4_file (gps_record 12 1 10)] False False False 0 False =
     Some (Inr ([[record_sample 12 1 10 1690200069 ''2023-07-24T12:01:09Z'' 0 ''Y'']],
           (session_at 63825883269 0)))"
proof -
  have g: "get_gps_data (gps_record 12 1 10) False 0 False initial_session =
     Inr (Some (record_sample 12 1 10 1690200069 ''2023-07-24T12:01:09Z'' 0 ''Y''),
          (session_at 63825883269 0))"
    by (simp only: get_gps_data_hour_12 standard_later_alone)
  show ?thesis
    by (simp add: run_def process_file_of_mp4_file [OF length_gps_record g])
qed

lemma run_first_then_later:
  "run [mp4_file (gps_record 12 0 10), mp4_file (gps_record 12 1 10)] False False False 0 False =
     Some (Inr ([[record_sample 12 0 10 1690200009 ''2023-07-24T12:00:09Z'' 0 ''Y''],
                 [record_sample 12 1 10 1690200069 ''2023-07-24T12:01:09Z'' 60 ''N'']],
           (session_at 63825883209 0)))"
proof -
  have g1: "get_gps_data (gps_record 12 0 10) False 0 False initial_session =
     Inr (Some (record_sample 12 0 10 1690200009 ''2023-07-24T12:00:09Z'' 0 ''Y''),
          (session_at 63825883209 0))"
    by (simp only: get_gps_data_hour_12 standard_first)
  have g2: "get_gps_data (gps_record 12 1 10) False 0 False
       (session_at 63825883209 0) =
     Inr (Some (record_sample 12 1 10 1690200069 ''2023-07-24T12:01:09Z'' 60 ''N''),
          (session_at 63825883209 0))"
    by (simp only: get_gps_data_hour_12 standard_later_after_first)
  show ?thesis
    by (simp add: run_def process_file_of_mp4_file [OF length_gps_record g1]
        process_file_of_mp4_file [OF length_gps_record g2])
qed

lemma short_atom_raises:
  "get_gps_atom (40, 8) mp4_file_short_atom deob bc dnbd st = Inl StructError"
  by (simp add: get_gps_atom_def mp4_file_short_atom_def read_at_def struct_slice_def ebind_def)

lemma short_atom_header:
  "read_at mp4_file_short_atom 40 8 = [0, 0, 0, 8] @ ascii ''free''"
  by (simp add: mp4_file_short_atom_def read_at_def ascii_def)

lemma parse_moov_short_atom:
  "parse_moov mp4_file_short_atom deob bc dnbd st = Some (Inl StructError)"
  unfolding parse_moov_def
  apply (subst parse_moov_loop.simps)
  apply (simp add: mp4_file_short_atom_def read_at_def get_atom_info_def u32_be_def is_ascii_def ascii_def)
  apply (subst sub_atoms_loop.simps)
  apply (simp add: read_at_def get_atom_info_def u32_be_def is_ascii_def ascii_def)
  apply (subst gps_entries_loop.simps)
  apply (simp add: read_at_def get_gps_atom_info_def u32_be_def)
  apply (simp add: short_atom_raises [unfolded mp4_file_short_atom_def, simplified])
  done

subsection \<open>Skipped atoms and the end of the scan\<close>

lemma get_gps_atom_zero:
  "atom_pos = 0 \<or> atom_size = 0 \<Longrightarrow>
   get_gps_atom (atom_pos, atom_size) in_fh deob bc dnbd st = Inr (None, st)"
  by (auto simp: get_gps_atom_def)

lemma get_gps_atom_mismatch:
  assumes "12 \<le> length (read_at in_fh atom_pos (nat atom_size))"
    and "u32_be (take 4 (read_at in_fh atom_pos (nat atom_size))) \<noteq> atom_size
         \<or> take 4 (drop 4 (read_at in_fh atom_pos (nat atom_size))) \<noteq> ascii ''free''
         \<or> take 4 (drop 8 (read_at in_fh atom_pos (nat atom_size))) \<noteq> ascii ''GPS ''"
  shows "get_gps_atom (atom_pos, atom_size) in_fh deob bc dnbd st = Inr (None, st)"
proof -
  have sl: "struct_slice (read_at in_fh atom_pos (nat atom_size)) 0 12
              = Inr (take 12 (read_at in_fh atom_pos (nat atom_size)))"
    using assms(1) by (simp add: struct_slice_def)
  show ?thesis
    using assms(2)
    by (auto simp: get_gps_atom_def sl ebind_def Let_def drop_take)
qed

lemma get_atom_info_truncated: "length eight_bytes < 8 \<Longrightarrow> get_atom_info eight_bytes = (0, [])"
  by (simp add: get_atom_info_def)

lemma parse_moov_loop_zero_size:
  assumes "fst (get_atom_info (read_at in_fh offset 8)) = 0"
  shows "parse_moov_loop in_fh offset deob bc dnbd gps_data is_moov st
           = Some (Inr ((gps_data, is_moov), st))"
proof -
  obtain t where g: "get_atom_info (read_at in_fh offset 8) = (0, t)"
    using assms by (cases "get_atom_info (read_at in_fh offset 8)") auto
  show ?thesis
    by (subst parse_moov_loop.simps) (simp add: g)
qed

lemma gps_entries_loop_skip:
  assumes "gps_offset < limit"
    and "get_gps_atom_info (read_at in_fh gps_offset 8) = Inr info"
    and "get_gps_atom info in_fh deob bc dnbd st = Inr (None, st)"
  shows "gps_entries_loop in_fh gps_offset limit deob bc dnbd gps_data st =
           gps_entries_loop in_fh (gps_offset + 8) limit deob bc dnbd (gps_data @ [None]) st"
  using assms by (subst gps_entries_loop.simps) simp

subsection \<open>C1: the session across the files of a run\<close>

text \<open>
  C1 fails on the script. Two files hold one record each, at the same position, of
  12:00:10 and of 12:01:10. Processed alone, the second file yields a sample with frame
  time position 0 and flag \<open>Y\<close>, and its video start timestamp is its own sample's.
  Processed after the first file in the same run, the same bytes yield frame time position
  60 and flag \<open>N\<close>, and the video start timestamp is the first file's: the module-level
  variables are never reset between two calls of \<^verbatim>\<open>process_file\<close>.
\<close>

theorem session_leaks_into_next_file:
  "run [mp4_file (gps_record 12 1 10)] False False False 0 False =
     Some (Inr ([[record_sample 12 1 10 1690200069 ''2023-07-24T12:01:09Z'' 0 ''Y'']],
           (session_at 63825883269 0)))
   \<and> run [mp4_file (gps_record 12 0 10), mp4_file (gps_record 12 1 10)]
         False False False 0 False =
     Some (Inr ([[record_sample 12 0 10 1690200009 ''2023-07-24T12:00:09Z'' 0 ''Y''],
                 [record_sample 12 1 10 1690200069 ''2023-07-24T12:01:09Z'' 60 ''N'']],
           (session_at 63825883209 0)))
   \<and> record_sample 12 1 10 1690200069 ''2023-07-24T12:01:09Z'' 0 ''Y''
       \<noteq> record_sample 12 1 10 1690200069 ''2023-07-24T12:01:09Z'' 60 ''N''"
proof -
  have ne: "record_sample 12 1 10 1690200069 ''2023-07-24T12:01:09Z'' 0 ''Y''
       \<noteq> record_sample 12 1 10 1690200069 ''2023-07-24T12:01:09Z'' 60 ''N''"
    by (simp add: record_sample_def)
  from run_later_alone run_first_then_later ne show ?thesis by (intro conjI)
qed

theorem session_leaks_into_next_file_witness:
  "\<exists>alone after st1 first st2.
     run [mp4_file (gps_record 12 1 10)] False False False 0 False
       = Some (Inr ([[alone]], st1))
     \<and> run [mp4_file (gps_record 12 0 10), mp4_file (gps_record 12 1 10)]
         False False False 0 False
       = Some (Inr ([[first], [after]], st2))
     \<and> FrameTimePosition alone = 0 \<and> FrameTimePosition after = 60
     \<and> FrameIsFarEnough alone = ''Y'' \<and> FrameIsFarEnough after = ''N''
     \<and> videoStartTs st1 \<noteq> videoStartTs st2"
proof -
  note t = session_leaks_into_next_file
  note r1 = t [THEN conjunct1]
  note r2 = t [THEN conjunct2, THEN conjunct1]
  have f1: "FrameTimePosition
      (record_sample 12 1 10 1690200069 ''2023-07-24T12:01:09Z'' 0 ''Y'') = 0"
    and f2: "FrameTimePosition
      (record_sample 12 1 10 1690200069 ''2023-07-24T12:01:09Z'' 60 ''N'') = 60"
    and f3: "FrameIsFarEnough
      (record_sample 12 1 10 1690200069 ''2023-07-24T12:01:09Z'' 0 ''Y'') = ''Y''"
    and f4: "FrameIsFarEnough
      (record_sample 12 1 10 1690200069 ''2023-07-24T12:01:09Z'' 60 ''N'') = ''N''"
    by (simp_all add: record_sample_def)
  have f5: "videoStartTs (session_at 63825883269 0) \<noteq> videoStartTs (session_at 63825883209 0)"
    by (simp add: session_at_def)
  show ?thesis
    by (intro exI conjI) (rule r1, rule r2, rule f1, rule f2, rule f3, rule f4, rule f5)
qed

subsection \<open>C3: timestamps and frame time position\<close>




subsection \<open>C5: the far-enough flag\<close>

text \<open>
  C5 fails on the script when the first sample lies on the equator. The test for "no
  previous position" is \<open>previousLatitude = 0\<close>, so a first sample of latitude 0 is adopted
  and leaves the session looking fresh: a second sample at the identical coordinate, at
  distance 0 from the first, is flagged \<open>Y\<close> again.
\<close>

theorem far_enough_at_latitude_zero:
  "isFrameFarEnoughFromPrevious 0 10 initial_session
     = Inr (''Y'', initial_session\<lparr>previousLatitude := 0, previousLongitude := 10\<rparr>)
   \<and> isFrameFarEnoughFromPrevious 0 10
       (initial_session\<lparr>previousLatitude := 0, previousLongitude := 10\<rparr>)
     = Inr (''Y'', initial_session\<lparr>previousLatitude := 0, previousLongitude := 10\<rparr>)"
  by (simp add: isFrameFarEnoughFromPrevious_def initial_session_def)

theorem far_enough_at_latitude_zero_witness:
  "\<exists>st. isFrameFarEnoughFromPrevious 0 10 initial_session = Inr (''Y'', st)
        \<and> isFrameFarEnoughFromPrevious 0 10 st = Inr (''Y'', st)"
  using far_enough_at_latitude_zero by blast

text \<open>With a previous latitude other than 0 the second sample at the same coordinate is
  flagged \<open>N\<close> and the session stays as it is; in a fresh session any sample is flagged
  \<open>Y\<close> and adopted.\<close>

lemma far_enough_same_position:
  assumes "previousLatitude st = x" "previousLongitude st = y" "x \<noteq> 0"
  shows "isFrameFarEnoughFromPrevious x y st = Inr (''N'', st)"
  using assms
  by (simp add: isFrameFarEnoughFromPrevious_def Let_def py_sqrt_def ebind_def atan2_def
      R_km_def minimalDistance_def)

lemma far_enough_fresh_session:
  "isFrameFarEnoughFromPrevious x y initial_session =
     Inr (''Y'', initial_session\<lparr>previousLatitude := x, previousLongitude := y\<rparr>)"
  by (simp add: isFrameFarEnoughFromPrevious_def initial_session_def)

text \<open>With a previous latitude other than 0 the flag is \<open>Y\<close>, and the position adopted,
  exactly when the haversine distance (radius 6378.1 km) from the previous position
  exceeds 0.005 km; the square roots stay in their domain.\<close>

lemma far_enough_after_previous:
  fixes latitude longitude :: real and st :: session
  assumes "previousLatitude st \<noteq> 0"
  defines "a \<equiv> spec_hav (radians latitude - radians (previousLatitude st))
                + cos (radians (previousLatitude st)) * cos (radians latitude)
                  * spec_hav (radians longitude - radians (previousLongitude st))"
  shows "isFrameFarEnoughFromPrevious latitude longitude st =
           Inr (if R_km * (2 * atan2 (sqrt a) (sqrt (1 - a))) > minimalDistance
                then (''Y'', st\<lparr>previousLatitude := latitude, previousLongitude := longitude\<rparr>)
                else (''N'', st))"
proof -
  have r: "0 \<le> a \<and> a \<le> 1"
    unfolding a_def hav_cos [symmetric] by (rule hav_h_range)
  have s1: "py_sqrt a = Inr (sqrt a)" using r by (simp add: py_sqrt_def)
  have s2: "py_sqrt (1 - a) = Inr (sqrt (1 - a))" using r by (simp add: py_sqrt_def)
  have unfold: "isFrameFarEnoughFromPrevious latitude longitude st =
      ebind (py_sqrt a) (\<lambda>sa.
        ebind (py_sqrt (1 - a)) (\<lambda>sb.
          let c = 2 * atan2 sa sb;
              distance = R_km * c
          in if distance > minimalDistance then
               Inr (''Y'', st\<lparr>previousLatitude := latitude,
                              previousLongitude := longitude\<rparr>)
             else Inr (''N'', st)))"
    using assms(1)
    unfolding isFrameFarEnoughFromPrevious_def a_def spec_hav_def
    by (simp only: Let_def if_False)
  show ?thesis
    unfolding unfold s1 s2 by (simp add: ebind_def Let_def)
qed

subsection \<open>C6: entries of the descriptor that name no telemetry atom\<close>

text \<open>
  C6 fails on the script for an entry whose atom is shorter than 12 bytes. The descriptor
  of the example file names, first, the \<open>free\<close> atom of 8 bytes at byte 40: its size field
  is 8 as the entry says, its type is \<open>free\<close>, and it has no magic. \<open>get_gps_atom\<close>
  unpacks 12 bytes before its \<open>try\<close> and raises; the scan of the file ends with that
  error, and the second entry, which names a valid record, is never read.
\<close>

theorem short_free_atom_raises:
  "get_gps_atom_info (read_at mp4_file_short_atom 24 8) = Inr (40, 8)
   \<and> read_at mp4_file_short_atom 40 8 = [0, 0, 0, 8] @ ascii ''free''
   \<and> get_gps_atom (40, 8) mp4_file_short_atom False 0 False initial_session = Inl StructError
   \<and> parse_moov mp4_file_short_atom False 0 False initial_session = Some (Inl StructError)"
proof -
  have "get_gps_atom_info (read_at mp4_file_short_atom 24 8) = Inr (40, 8)"
    by (simp add: mp4_file_short_atom_def read_at_def get_gps_atom_info_def u32_be_def)
  then show ?thesis
    using short_atom_header short_atom_raises parse_moov_short_atom by (intro conjI)
qed

theorem short_free_atom_raises_witness:
  "\<exists>e. parse_moov mp4_file_short_atom False 0 False initial_session = Some (Inl e)"
  using short_free_atom_raises by blast

subsection \<open>C7: merging samples of one timestamp\<close>

text \<open>
  C7. \<open>merge_duplicates\<close> returns one sample for each timestamp string of the track, in
  the order in which the timestamps first appear. A timestamp carried by one sample gives
  that sample unchanged. A timestamp carried by several gives the first of them with its
  position replaced by the spherical centroid of the group (unit vectors, averaged,
  converted back), its speed and bearing by the arithmetic means, and its far-enough flag
  by \<open>Y\<close> exactly when some member has \<open>Y\<close>.
\<close>

theorem merge_duplicates_by_timestamp:
  "merge_duplicates gps_data =
     Inr (map (\<lambda>k. if length (spec_group gps_data k) = 1 then hd (spec_group gps_data k)
                   else spec_merge_group (spec_group gps_data k))
              (spec_first_keys gps_data))"
proof (cases "gps_data = []")
  case True
  then show ?thesis by (simp add: merge_duplicates_def spec_first_keys_def)
next
  case False
  have ne: "\<forall>vs \<in> set (map snd (gps_data_dict gps_data)). vs \<noteq> []"
    by (auto simp: gps_data_dict_groups group_nonempty)
  show ?thesis
    using False
    by (simp add: merge_duplicates_def merge_loop_map [OF ne])
       (simp add: gps_data_dict_groups comp_def)
qed

text \<open>Two samples of one timestamp at 60 degrees north on opposite meridians merge into the
  pole, latitude 90; the arithmetic mean of their coordinates is latitude 60, longitude
  90.\<close>

theorem merge_duplicates_by_timestamp_witness:
  "merge_duplicates
     [track_point 60 0 0 ''t'' 10 350 ''N'', track_point 1 2 5 ''u'' 3 4 ''N'',
      track_point 60 180 0 ''t'' 20 10 ''Y'']
   = Inr [track_point 90 0 0 ''t'' 15 180 ''Y'', track_point 1 2 5 ''u'' 3 4 ''N'']
   \<and> (90, 0) \<noteq> ((60 + 60) / 2, (0 + 180) / (2::real))"
proof -
  let ?P = "track_point 60 0 0 ''t'' 10 350 ''N''"
  let ?Q = "track_point 60 180 0 ''t'' 20 10 ''Y''"
  let ?U = "track_point 1 2 5 ''u'' 3 4 ''N''"
  have keys: "spec_first_keys [?P, ?U, ?Q] = [''t'', ''u'']"
    by (simp add: spec_first_keys_def track_point_def)
  have gt: "spec_group [?P, ?U, ?Q] ''t'' = [?P, ?Q]"
    by (simp add: spec_group_def track_point_def)
  have gu: "spec_group [?P, ?U, ?Q] ''u'' = [?U]"
    by (simp add: spec_group_def track_point_def)
  have r60: "radians 60 = pi / 3" and r180: "radians 180 = pi" and r0: "radians 0 = 0"
    by (simp_all add: radians_def)
  have cen: "spec_spherical_centroid [(60, 0), (60, 180)] = (90, 0)"
    by (simp add: spec_spherical_centroid_def spec_unit_vector_def Let_def r60 r180 r0
        cos_60 sin_60 atan2_def degrees_def)
  have mg: "spec_merge_group [?P, ?Q] = track_point 90 0 0 ''t'' 15 180 ''Y''"
    by (simp add: spec_merge_group_def Let_def spec_mean_def)
       (simp add: track_point_def cen)
  have "merge_duplicates [?P, ?U, ?Q] =
      Inr (map (\<lambda>k. if length (spec_group [?P, ?U, ?Q] k) = 1
                       then hd (spec_group [?P, ?U, ?Q] k)
                       else spec_merge_group (spec_group [?P, ?U, ?Q] k))
             (spec_first_keys [?P, ?U, ?Q]))"
    by (rule merge_duplicates_by_timestamp)
  also have "\<dots> = Inr [track_point 90 0 0 ''t'' 15 180 ''Y'', ?U]"
    by (simp add: keys gt gu mg)
  finally show ?thesis by simp
qed

subsection \<open>C8: outliers against the median reference\<close>

text \<open>
  C8. For every non-empty track, \<open>remove_outliers\<close> keeps exactly the samples, in order,
  whose implied speed against the reference does not exceed 1000 m/s. The reference is made
  of the medians of the latitudes, of the longitudes and of the epochs, each list sorted
  by itself (the element at index \<open>length div 2\<close>). The implied speed is the haversine
  distance (radius 6378100 m) over the absolute difference of the epochs, and 0 when the
  epochs are equal. No sample makes the computation fail.
\<close>

theorem remove_outliers_by_median_speed:
  assumes "gps_data \<noteq> []"
  shows "remove_outliers gps_data =
           Inr (filter (\<lambda>p. \<not> spec_implied_speed
                               (spec_median (map Lat_Float gps_data),
                                spec_median (map Lon_Float gps_data),
                                spec_median (map Epoch gps_data)) p > 1000) gps_data)"
  using assms
  by (simp add: remove_outliers_def mid_point_of_def Let_def spec_median_def
      remove_outliers_loop_filter)

text \<open>Three samples whose medians \<open>(0, 0, 1)\<close> are the coordinates of none of them; the third,
  half the globe away one second later, is dropped.\<close>

theorem remove_outliers_by_median_speed_witness:
  "[track_point 0 0 0 ''a'' 0 0 ''Y'', track_point 1 0 1 ''b'' 0 0 ''Y'',
    track_point 0 180 2 ''c'' 0 0 ''Y''] \<noteq> []
   \<and> (spec_median [0, 1, 0 :: real], spec_median [0, 0, 180 :: real], spec_median [0, 1, 2 :: int])
       = (0, 0, 1)
   \<and> remove_outliers
       [track_point 0 0 0 ''a'' 0 0 ''Y'', track_point 1 0 1 ''b'' 0 0 ''Y'',
        track_point 0 180 2 ''c'' 0 0 ''Y'']
     = Inr [track_point 0 0 0 ''a'' 0 0 ''Y'', track_point 1 0 1 ''b'' 0 0 ''Y'']"
proof -
  let ?A = "track_point 0 0 0 ''a'' 0 0 ''Y''"
  let ?B = "track_point 1 0 1 ''b'' 0 0 ''Y''"
  let ?C = "track_point 0 180 2 ''c'' 0 0 ''Y''"
  have ne: "[?A, ?B, ?C] \<noteq> []" by simp
  have med: "(spec_median [0, 1, 0 :: real], spec_median [0, 0, 180 :: real],
              spec_median [0, 1, 2 :: int]) = (0, 0, 1)"
    by (simp add: spec_median_def)
  have maps: "map Lat_Float [?A, ?B, ?C] = [0, 1, 0]" "map Lon_Float [?A, ?B, ?C] = [0, 0, 180]"
    "map Epoch [?A, ?B, ?C] = [0, 1, 2]"
    by (simp_all add: track_point_def)
  have sa: "spec_implied_speed (0, 0, 1) ?A = 0"
    by (simp add: spec_implied_speed_def spec_haversine_distance_def spec_hav_def
        track_point_def radians_def)
  have sb: "spec_implied_speed (0, 0, 1) ?B = 0"
    by (simp add: spec_implied_speed_def track_point_def)
  have sc: "spec_implied_speed (0, 0, 1) ?C = 6378100 * pi"
    by (simp add: spec_implied_speed_def spec_haversine_distance_def spec_hav_def
        track_point_def radians_def)
  have big: "(1000::real) < 6378100 * pi" using pi_ge_two by linarith
  have "remove_outliers [?A, ?B, ?C] =
      Inr (filter (\<lambda>p. \<not> spec_implied_speed (0, 0, 1) p > 1000) [?A, ?B, ?C])"
    using remove_outliers_by_median_speed [OF ne] by (simp only: maps med)
  also have "\<dots> = Inr [?A, ?B]" using big by (simp add: sa sb sc)
  finally show ?thesis using ne med by simp
qed

subsection \<open>C10: the fallback from the obfuscated variant\<close>

text \<open>Whatever the leading byte, once \<open>decode_azdome\<close> has returned nothing the result is
  the standard decoding at the offset the marker search found, in the session the search
  left; with no offset, it is no sample in that session.\<close>

lemma get_gps_data_fallback:
  assumes "data \<noteq> []" "decode_azdome data = Inr None"
    and "get_gps_offset data st = Inr (offset, st1)"
  shows "get_gps_data data deob bc dnbd st =
           (if 0 \<le> offset then decode_standard data offset deob bc dnbd st1
            else Inr (None, st1))"
proof -
  obtain b bs where d: "data = b # bs" using assms(1) by (cases data) auto
  have "struct_slice data 0 1 = Inr [b]" by (simp add: d struct_slice_def)
  then show ?thesis
    using assms(2) assms(3) by (simp add: get_gps_data_def ebind_def)
qed

text \<open>
  C10. The variant is not chosen by the leading byte alone. The example record of 05:00:10
  starts with the byte \<open>0x05\<close> (its hour); \<open>decode_azdome\<close> returns nothing on it, the
  marker search finds offset 0, and \<open>get_gps_data\<close> returns the standard sample. On the
  one-byte region \<open>0x05\<close> the marker search runs and counts a bad region.
\<close>

theorem azdome_marker_falls_back:
  "hd (gps_record 5 0 10) = 0x05
   \<and> decode_azdome (gps_record 5 0 10) = Inr None
   \<and> get_gps_offset (gps_record 5 0 10) initial_session = Inr (0, initial_session)
   \<and> get_gps_data (gps_record 5 0 10) False 0 False initial_session
     = Inr (Some (record_sample 5 0 10 1690174809 ''2023-07-24T05:00:09Z'' 0 ''Y''),
            (session_at 63825858009 0))
   \<and> hd [0x05 :: byte] = 0x05
   \<and> get_gps_offset [0x05] initial_session
     = Inr (- 1, initial_session\<lparr>videoStartWrongAtoms := 1\<rparr>)
   \<and> get_gps_data [0x05] False 0 False initial_session
     = Inr (None, initial_session\<lparr>videoStartWrongAtoms := 1\<rparr>)
   \<and> (\<forall>data st offset st1 deob bc dnbd.
         data \<noteq> [] \<and> hd data \<in> {0x05, 0xF0} \<and> decode_azdome data = Inr None
         \<and> get_gps_offset data st = Inr (offset, st1)
         \<longrightarrow> get_gps_data data deob bc dnbd st =
               (if 0 \<le> offset then decode_standard data offset deob bc dnbd st1
                else Inr (None, st1)))"
proof -
  have a: "hd (gps_record 5 0 10) = 0x05" by (simp add: gps_record_def)
  have b: "get_gps_data (gps_record 5 0 10) False 0 False initial_session
     = Inr (Some (record_sample 5 0 10 1690174809 ''2023-07-24T05:00:09Z'' 0 ''Y''),
            (session_at 63825858009 0))"
    by (simp add: get_gps_data_hour_5 azdome_hour_5 standard_hour_5)
  have c: "get_gps_offset [0x05] initial_session
     = Inr (- 1, initial_session\<lparr>videoStartWrongAtoms := 1\<rparr>)"
    by (simp add: get_gps_offset_def get_gps_offset_loop.simps initial_session_def)
  have d: "get_gps_data [0x05] False 0 False initial_session
     = Inr (None, initial_session\<lparr>videoStartWrongAtoms := 1\<rparr>)"
    by (simp add: get_gps_data_one_byte_azdome) (simp add: initial_session_def)
  have e: "hd [0x05 :: byte] = 0x05" by simp
  have f: "\<forall>data st offset st1 deob bc dnbd.
         data \<noteq> [] \<and> hd data \<in> {0x05, 0xF0} \<and> decode_azdome data = Inr None
         \<and> get_gps_offset data st = Inr (offset, st1)
         \<longrightarrow> get_gps_data data deob bc dnbd st =
               (if 0 \<le> offset then decode_standard data offset deob bc dnbd st1
                else Inr (None, st1))"
    by (intro allI impI) (elim conjE, rule get_gps_data_fallback)
  show ?thesis
    by (intro conjI) (rule a, rule azdome_hour_5, rule offset_of_record, rule b, rule e,
      rule c, rule d, rule f)
qed

theorem azdome_marker_falls_back_witness:
  "\<exists>data smp st. hd data \<in> {0x05, 0xF0} \<and> decode_azdome data = Inr None
     \<and> get_gps_data data False 0 False initial_session = Inr (Some smp, st) \<and> Hour smp = 5"
proof -
  note t = azdome_marker_falls_back
  have h: "hd (gps_record 5 0 10) \<in> {0x05, 0xF0}"
    using t [THEN conjunct1] by simp
  note az = t [THEN conjunct2, THEN conjunct1]
  note g = t [THEN conjunct2, THEN conjunct2, THEN conjunct2, THEN conjunct1]
  have hour: "Hour (record_sample 5 0 10 1690174809 ''2023-07-24T05:00:09Z'' 0 ''Y'') = 5"
    by (simp add: record_sample_def)
  show ?thesis
    by (intro exI conjI) (rule h, rule az, rule g, rule hour)
qed

end
